theory Spec2Isabelle
  imports Complex_Main
begin

section \<open>JavaScript numbers\<close>

text \<open>
  The library computes with JavaScript numbers, which are doubles. A number is modelled as
  an exact real, or one of the three special values a division by zero and arithmetic on
  them produce: \<open>Infinity\<close>, \<open>-Infinity\<close> and \<open>NaN\<close>. A zero has no sign (a division of a
  non-zero number by zero takes the sign of the numerator, as for the zero of an element
  size). \<open>undefined\<close> used as a number is \<open>NaN\<close>.

  The arithmetic of the model is exact: a sum, product or quotient of two finite numbers is
  the real sum, product or quotient, where a double is that result rounded, an infinity
  when it is too large, and zero or a subnormal number when it is too small. The
  comparisons, \<open>Math.min\<close>, \<open>Math.max\<close>, \<open>Math.abs\<close>, \<open>Math.sign\<close> and the arithmetic of the
  special values are those of doubles. So a statement below is one of three kinds: it gives
  a result as the expression the source computes; or it rests on comparisons and on the
  special values; or it carries a hypothesis that keeps it to numbers where the rounded
  result satisfies it as the exact one does. What doubles satisfy only within a tolerance
  (that one computed expression undoes another) cannot be stated in this model.
\<close>

datatype jsnum = Num real | PInf | NInf | NaN

fun jneg :: "jsnum \<Rightarrow> jsnum" where
  "jneg (Num a) = Num (- a)"
| "jneg PInf = NInf"
| "jneg NInf = PInf"
| "jneg NaN = NaN"

fun jadd :: "jsnum \<Rightarrow> jsnum \<Rightarrow> jsnum" where
  "jadd (Num a) (Num b) = Num (a + b)"
| "jadd NaN _ = NaN"
| "jadd _ NaN = NaN"
| "jadd PInf NInf = NaN"
| "jadd NInf PInf = NaN"
| "jadd PInf _ = PInf"
| "jadd _ PInf = PInf"
| "jadd NInf _ = NInf"
| "jadd _ NInf = NInf"

definition jsub :: "jsnum \<Rightarrow> jsnum \<Rightarrow> jsnum" where
  [simp]: "jsub a b = jadd a (jneg b)"

text \<open>The sign of an infinite product; a zero factor gives \<open>NaN\<close>.\<close>

definition infTimes :: "bool \<Rightarrow> real \<Rightarrow> jsnum" where
  "infTimes positive b =
     (if b = 0 then NaN else if (0 < b) = positive then PInf else NInf)"

fun jmul :: "jsnum \<Rightarrow> jsnum \<Rightarrow> jsnum" where
  "jmul (Num a) (Num b) = Num (a * b)"
| "jmul NaN _ = NaN"
| "jmul _ NaN = NaN"
| "jmul PInf (Num b) = infTimes True b"
| "jmul NInf (Num b) = infTimes False b"
| "jmul (Num a) PInf = infTimes True a"
| "jmul (Num a) NInf = infTimes False a"
| "jmul PInf PInf = PInf"
| "jmul NInf NInf = PInf"
| "jmul PInf NInf = NInf"
| "jmul NInf PInf = NInf"

fun jdiv :: "jsnum \<Rightarrow> jsnum \<Rightarrow> jsnum" where
  "jdiv (Num a) (Num b) =
     (if b \<noteq> 0 then Num (a / b)
      else if a = 0 then NaN else if 0 < a then PInf else NInf)"
| "jdiv NaN _ = NaN"
| "jdiv _ NaN = NaN"
| "jdiv (Num a) PInf = Num 0"
| "jdiv (Num a) NInf = Num 0"
| "jdiv PInf (Num b) = (if 0 \<le> b then PInf else NInf)"
| "jdiv NInf (Num b) = (if 0 \<le> b then NInf else PInf)"
| "jdiv PInf PInf = NaN"
| "jdiv PInf NInf = NaN"
| "jdiv NInf PInf = NaN"
| "jdiv NInf NInf = NaN"

text \<open>\<open>a < b\<close>; every comparison with \<open>NaN\<close> is false.\<close>

fun jlt :: "jsnum \<Rightarrow> jsnum \<Rightarrow> bool" where
  "jlt (Num a) (Num b) = (a < b)"
| "jlt NaN _ = False"
| "jlt _ NaN = False"
| "jlt _ NInf = False"
| "jlt PInf _ = False"
| "jlt NInf _ = True"
| "jlt _ PInf = True"

text \<open>\<open>Math.min\<close> and \<open>Math.max\<close>: \<open>NaN\<close> when an argument is \<open>NaN\<close>.\<close>

fun jmin :: "jsnum \<Rightarrow> jsnum \<Rightarrow> jsnum" where
  "jmin NaN _ = NaN"
| "jmin _ NaN = NaN"
| "jmin a b = (if jlt b a then b else a)"

fun jmax :: "jsnum \<Rightarrow> jsnum \<Rightarrow> jsnum" where
  "jmax NaN _ = NaN"
| "jmax _ NaN = NaN"
| "jmax a b = (if jlt a b then b else a)"

text \<open>\<open>Math.abs\<close>, \<open>Math.sign\<close> and \<open>Math.hypot\<close> (infinite when an argument is, even
  beside a \<open>NaN\<close>).\<close>

fun jabs :: "jsnum \<Rightarrow> jsnum" where
  "jabs (Num a) = Num \<bar>a\<bar>"
| "jabs PInf = PInf"
| "jabs NInf = PInf"
| "jabs NaN = NaN"


fun jhypot :: "jsnum \<Rightarrow> jsnum \<Rightarrow> jsnum" where
  "jhypot (Num a) (Num b) = Num (sqrt (a * a + b * b))"
| "jhypot PInf _ = PInf"
| "jhypot NInf _ = PInf"
| "jhypot _ PInf = PInf"
| "jhypot _ NInf = PInf"
| "jhypot NaN _ = NaN"
| "jhypot _ NaN = NaN"

text \<open>A number in a condition: \<open>0\<close> and \<open>NaN\<close> are falsy.\<close>

fun truthy :: "jsnum \<Rightarrow> bool" where
  "truthy (Num a) = (a \<noteq> 0)"
| "truthy NaN = False"
| "truthy _ = True"

fun isFinite :: "jsnum \<Rightarrow> bool" where
  "isFinite (Num a) = True"
| "isFinite _ = False"

text \<open>The operators of the source, \<open>+ - * /\<close> and \<open>< <=\<close>, on JavaScript numbers.\<close>

fun jle :: "jsnum \<Rightarrow> jsnum \<Rightarrow> bool" where
  "jle (Num a) (Num b) = (a \<le> b)"
| "jle NaN _ = False"
| "jle _ NaN = False"
| "jle NInf _ = True"
| "jle _ PInf = True"
| "jle _ NInf = False"
| "jle PInf _ = False"

instantiation jsnum :: "{plus, minus, uminus, times, inverse, ord}"
begin

definition plus_jsnum :: "jsnum \<Rightarrow> jsnum \<Rightarrow> jsnum" where
  [simp]: "plus_jsnum a b = jadd a b"

definition minus_jsnum :: "jsnum \<Rightarrow> jsnum \<Rightarrow> jsnum" where
  [simp]: "minus_jsnum a b = jsub a b"

definition uminus_jsnum :: "jsnum \<Rightarrow> jsnum" where
  [simp]: "uminus_jsnum a = jneg a"

definition times_jsnum :: "jsnum \<Rightarrow> jsnum \<Rightarrow> jsnum" where
  [simp]: "times_jsnum a b = jmul a b"

definition divide_jsnum :: "jsnum \<Rightarrow> jsnum \<Rightarrow> jsnum" where
  [simp]: "divide_jsnum a b = jdiv a b"

definition inverse_jsnum :: "jsnum \<Rightarrow> jsnum" where
  [simp]: "inverse_jsnum a = jdiv (Num 1) a"

definition less_jsnum :: "jsnum \<Rightarrow> jsnum \<Rightarrow> bool" where
  [simp]: "less_jsnum a b = jlt a b"

definition less_eq_jsnum :: "jsnum \<Rightarrow> jsnum \<Rightarrow> bool" where
  [simp]: "less_eq_jsnum a b = jle a b"

instance ..

end

section \<open>The data of an instance\<close>

text \<open>
  What the document supplies is finite: the size of an element (\<open>clientWidth\<close>,
  \<open>clientHeight\<close>), the coordinates of an event, the scroll offsets. These are reals.
  What the caller supplies (the options) and what the instance computes are JavaScript
  numbers. The size of an element is read from the element at every use; a change of the
  layout between two calls is a change of the element in the state.
\<close>

record element =
  clientWidth :: real
  clientHeight :: real

text \<open>The value of the option \<open>wrapperElement\<close> or \<open>panZoomElement\<close>: nothing (or a falsy
  value), a selector string, an element, or some other truthy value.\<close>

datatype elementOption = NoElement | Selector string | AnElement element | NotAnElement

datatype boundsMode = BoundsOff | BoundsContain | BoundsCover

datatype zoomValue = ZoomCover | ZoomContain | ZoomNumber jsnum

datatype notification = OnInit | OnChange | OnZoom | OnPan

type_synonym position = "jsnum \<times> jsnum \<times> jsnum"

text \<open>The options after the merge with the defaults. The options \<open>wrapperElement\<close>,
  \<open>panZoomElement\<close> and \<open>center\<close> are \<open>optWrapperElement\<close>, \<open>optPanZoomElement\<close> and
  \<open>optCenter\<close> (the instance has fields, and a method, of these names); \<open>callbacks\<close> lists
  which of \<open>onInit\<close>, \<open>onChange\<close>, \<open>onZoom\<close> and \<open>onPan\<close> are set.\<close>

record options =
  optWrapperElement :: elementOption
  optPanZoomElement :: elementOption
  optCenter :: bool
  bounds :: boundsMode
  minZoom :: jsnum
  maxZoom :: jsnum
  panStep :: jsnum
  zoomStep :: jsnum
  zoomSpeedWheel :: jsnum
  zoomSpeedPinch :: jsnum
  initialZoom :: zoomValue
  initialPanX :: jsnum
  initialPanY :: jsnum
  transitionSpeed :: jsnum
  callbacks :: "notification list"

definition defaultOptions :: options where
  "defaultOptions =
     \<lparr>optWrapperElement = NoElement, optPanZoomElement = NoElement, optCenter = True,
      bounds = BoundsContain, minZoom = Num 0.1, maxZoom = Num 10, panStep = Num 10,
      zoomStep = Num 50, zoomSpeedWheel = Num 1, zoomSpeedPinch = Num 4,
      initialZoom = ZoomContain, initialPanX = Num 0, initialPanY = Num 0,
      transitionSpeed = Num 400, callbacks = []\<rparr>"

text \<open>An element on the \<open>offsetParent\<close> chain of an event's target.\<close>

record offsetBox =
  offsetLeft :: real
  offsetTop :: real
  scrollLeft :: real
  scrollTop :: real

text \<open>What \<open>getEventOffsetToParent\<close> reads of an event: the target, as the chain of its
  offset parents (the target first, up to the last element that has offsets), and the
  client coordinates. A mouse, wheel or pointer event extends it.\<close>

record eventPoint =
  target :: "offsetBox list"
  clientX :: real
  clientY :: real

record mouseEvent = eventPoint +
  pageX :: real
  pageY :: real


record pointerEvent = mouseEvent +
  pointerId :: int

record touchCenter =
  centerPageX :: real
  centerPageY :: real
  centerClientX :: real
  centerClientY :: real

text \<open>
  The instance (\<open>this\<close>), with the part of the page it reads and writes: the document's
  \<open>querySelector\<close>, the window's scroll offsets, the console, the style of the container
  (its transition speed when enabled, the \<open>matrix(zoom, 0, 0, zoom, x, y)\<close> transform as
  the three numbers) and the notifications handed to registered callbacks. The fields
  \<open>this.zoom\<close>, \<open>this.x\<close> and \<open>this.y\<close> are \<open>this_zoom\<close>, \<open>this_x\<close> and \<open>this_y\<close>. A field
  that has not been assigned yet is \<open>undefined\<close>: \<open>NaN\<close> as a number, \<open>None\<close> as an
  object, \<open>False\<close> as a flag.
\<close>

record domPanZoom =
  options :: options
  wrapperElement :: "element option"
  containerElement :: "element option"
  this_zoom :: jsnum
  this_x :: jsnum
  this_y :: jsnum
  evCache :: "pointerEvent list"
  pinchDiffCache :: jsnum
  zoomCache :: jsnum
  xCache :: jsnum
  yCache :: jsnum
  touchEventsCenterCache :: "touchCenter option"
  blockPan :: bool
  previousEvent :: "(jsnum \<times> jsnum) option"
  querySelector :: "string \<Rightarrow> element option"
  scrollX :: real
  scrollY :: real
  console :: "string list"
  styleTransition :: "jsnum option"
  styleTransform :: "position option"
  fired :: "(notification \<times> position) list"

section \<open>Errors\<close>

text \<open>
  Both exceptions of the source are \<open>TypeError\<close>s: reading a property of \<open>null\<close> (an
  element that was not found) and assigning to a \<open>const\<close>. A method that throws leaves
  the instance as it was at the throw: the result is the error with that state, or the
  returned value with the final state.
\<close>

datatype cause = NullProperty | ConstAssignment

datatype error = TypeError cause

type_synonym 'a result = "(error \<times> domPanZoom) + 'a"

definition andThen :: "'a result \<Rightarrow> ('a \<Rightarrow> 'b result) \<Rightarrow> 'b result" where
  "andThen r f = (case r of Inl e \<Rightarrow> Inl e | Inr a \<Rightarrow> f a)"

section \<open>Finding the elements\<close>

definition consoleError :: "string \<Rightarrow> domPanZoom \<Rightarrow> domPanZoom" where
  "consoleError msg s = s\<lparr>console := console s @ [msg]\<rparr>"

text \<open>\<open>getWrapper\<close>: the cached element; otherwise the option is resolved (a selector is
  replaced in the options by what \<open>querySelector\<close> finds), cached when it is an element,
  and reported on the console and answered by \<open>null\<close> when it is not. \<open>querySelector\<close>
  answers every selector here; the exception it throws for a malformed one is not
  modelled.\<close>

definition getWrapper :: "domPanZoom \<Rightarrow> element option \<times> domPanZoom" where
  "getWrapper s =
     (case wrapperElement s of
        Some e \<Rightarrow> (Some e, s)
      | None \<Rightarrow>
          (case optWrapperElement (options s) of
             NoElement \<Rightarrow> (None, consoleError ''The option wrapperElement is required.'' s)
           | Selector sel \<Rightarrow>
               (if sel = [] then
                  (None, consoleError ''The option wrapperElement is required.'' s)
                else
                  (case querySelector s sel of
                     None \<Rightarrow>
                       (None,
                        consoleError
                          ''The option wrapperElement needs to be a valid selector string or an instance of Element.''
                          (s\<lparr>options := (options s)\<lparr>optWrapperElement := NoElement\<rparr>\<rparr>))
                   | Some e \<Rightarrow>
                       (Some e,
                        s\<lparr>options := (options s)\<lparr>optWrapperElement := AnElement e\<rparr>,
                          wrapperElement := Some e\<rparr>)))
           | AnElement e \<Rightarrow> (Some e, s\<lparr>wrapperElement := Some e\<rparr>)
           | NotAnElement \<Rightarrow>
               (None,
                consoleError
                  ''The option wrapperElement needs to be a valid selector string or an instance of Element.''
                  s)))"

definition getContainer :: "domPanZoom \<Rightarrow> element option \<times> domPanZoom" where
  "getContainer s =
     (case containerElement s of
        Some e \<Rightarrow> (Some e, s)
      | None \<Rightarrow>
          (case optPanZoomElement (options s) of
             NoElement \<Rightarrow> (None, consoleError ''The option panZoomElement is required.'' s)
           | Selector sel \<Rightarrow>
               (if sel = [] then
                  (None, consoleError ''The option panZoomElement is required.'' s)
                else
                  (case querySelector s sel of
                     None \<Rightarrow>
                       (None,
                        consoleError
                          ''The option panZoomElement needs to be a valid selector string or an instance of Element.''
                          (s\<lparr>options := (options s)\<lparr>optPanZoomElement := NoElement\<rparr>\<rparr>))
                   | Some e \<Rightarrow>
                       (Some e,
                        s\<lparr>options := (options s)\<lparr>optPanZoomElement := AnElement e\<rparr>,
                          containerElement := Some e\<rparr>)))
           | AnElement e \<Rightarrow> (Some e, s\<lparr>containerElement := Some e\<rparr>)
           | NotAnElement \<Rightarrow>
               (None,
                consoleError
                  ''The option panZoomElement needs to be a valid selector string or an instance of Element.''
                  s)))"

section \<open>Position, notifications and the transform\<close>

definition getPosition :: "domPanZoom \<Rightarrow> position" where
  "getPosition s = (this_zoom s, this_x s, this_y s)"

text \<open>\<open>fireEvent\<close>: the callback of the options, when there is one, is called with the
  position. The callback itself is the caller's code: the call is recorded.\<close>

definition fireEvent :: "notification \<Rightarrow> position \<Rightarrow> domPanZoom \<Rightarrow> domPanZoom" where
  "fireEvent event pass s =
     (if event \<in> set (callbacks (options s)) then s\<lparr>fired := fired s @ [(event, pass)]\<rparr>
      else s)"

definition transition :: "bool \<Rightarrow> domPanZoom \<Rightarrow> domPanZoom result" where
  "transition enabled s =
     (case getContainer s of (container, s) \<Rightarrow>
        (case container of
           None \<Rightarrow> Inl (TypeError NullProperty, s)
         | Some _ \<Rightarrow>
             Inr (s\<lparr>styleTransition :=
                       (if enabled then Some (transitionSpeed (options s)) else None)\<rparr>)))"

text \<open>The block \<open>Fit to bounds\<close> of \<open>setPosition\<close>, run when the option \<open>bounds\<close> is set.\<close>

definition fitToBounds :: "domPanZoom \<Rightarrow> domPanZoom result" where
  "fitToBounds s =
     (case getWrapper s of (wrapper, s) \<Rightarrow>
      case getContainer s of (container, s) \<Rightarrow>
        (case wrapper of
           None \<Rightarrow> Inl (TypeError NullProperty, s)
         | Some wrapper \<Rightarrow>
        (case container of
           None \<Rightarrow> Inl (TypeError NullProperty, s)
         | Some container \<Rightarrow>
             (let wrapperWidth = Num (clientWidth wrapper);
                  wrapperHeight = Num (clientHeight wrapper);
                  containerWidth = Num (clientWidth container);
                  containerHeight = Num (clientHeight container);
                  containerZoomWidth = containerWidth * this_zoom s;
                  containerZoomHeight = containerHeight * this_zoom s;
                  upperOffsetX = (containerWidth / Num 2) * (this_zoom s - Num 1);
                  lowerOffsetX = upperOffsetX * Num (- 1) + wrapperWidth - containerWidth;
                  s = (if containerZoomWidth < wrapperWidth then
                         (let s = (if this_x s < upperOffsetX then s\<lparr>this_x := upperOffsetX\<rparr>
                                   else s)
                          in (if this_x s > lowerOffsetX then s\<lparr>this_x := lowerOffsetX\<rparr>
                              else s))
                       else
                         (let s = s\<lparr>this_x := jmin (this_x s) upperOffsetX\<rparr>
                          in s\<lparr>this_x := jmax (this_x s) lowerOffsetX\<rparr>));
                  upperOffsetY = (containerHeight / Num 2) * (this_zoom s - Num 1);
                  lowerOffsetY = upperOffsetY * Num (- 1) + wrapperHeight - containerHeight;
                  s = (if containerZoomHeight < wrapperHeight then
                         (let s = (if this_y s < upperOffsetY then s\<lparr>this_y := upperOffsetY\<rparr>
                                   else s)
                          in (if this_y s > lowerOffsetY then s\<lparr>this_y := lowerOffsetY\<rparr>
                              else s))
                       else
                         (let s = s\<lparr>this_y := jmin (this_y s) upperOffsetY\<rparr>
                          in s\<lparr>this_y := jmax (this_y s) lowerOffsetY\<rparr>))
              in Inr s))))"

definition setPosition :: "bool \<Rightarrow> domPanZoom \<Rightarrow> domPanZoom result" where
  "setPosition instant s =
     andThen (transition (\<not> instant) s) (\<lambda>s.
     andThen (if bounds (options s) \<noteq> BoundsOff then fitToBounds s else Inr s) (\<lambda>s.
       (case getContainer s of (container, s) \<Rightarrow>
          (case container of
             None \<Rightarrow> Inl (TypeError NullProperty, s)
           | Some _ \<Rightarrow>
               (let s = s\<lparr>styleTransform := Some (getPosition s)\<rparr>
                in Inr (fireEvent OnChange (getPosition s) s))))))"

section \<open>Panning to a position\<close>

definition panTo :: "jsnum \<Rightarrow> jsnum \<Rightarrow> bool \<Rightarrow> bool \<Rightarrow> domPanZoom \<Rightarrow> domPanZoom result" where
  "panTo px py instant ignorePosition s =
     (case getWrapper s of (wrapper, s) \<Rightarrow>
      case getContainer s of (container, s) \<Rightarrow>
        (case container of
           None \<Rightarrow> Inl (TypeError NullProperty, s)
         | Some container \<Rightarrow>
        (case wrapper of
           None \<Rightarrow> Inl (TypeError NullProperty, s)
         | Some wrapper \<Rightarrow>
             (let panX = ((Num (clientWidth container) * this_zoom s * px) / Num 100) * Num (- 1);
                  panX = panX + (this_zoom s - Num 1) * (Num (clientWidth container) * Num 0.5);
                  panX = panX + Num (clientWidth wrapper) * Num 0.5;
                  panY = ((Num (clientHeight container) * this_zoom s * py) / Num 100) * Num (- 1);
                  panY = panY + (this_zoom s - Num 1) * (Num (clientHeight container) * Num 0.5);
                  panY = panY + Num (clientHeight wrapper) * Num 0.5;
                  s = s\<lparr>this_x := panX, this_y := panY\<rparr>
              in andThen (if \<not> ignorePosition then setPosition instant s else Inr s) (\<lambda>s.
                 Inr (fireEvent OnPan (getPosition s) s))))))"

definition center :: "bool \<Rightarrow> bool \<Rightarrow> domPanZoom \<Rightarrow> domPanZoom result" where
  "center instant ignorePosition s = panTo (Num 50) (Num 50) instant ignorePosition s"

section \<open>Zoom\<close>

text \<open>\<open>sanitizeZoom\<close>: \<open>'cover'\<close> and \<open>'contain'\<close> become the larger and the smaller of the
  two size ratios, after the content is centered; then the value is raised to \<open>minZoom\<close>
  when below it, and then lowered to \<open>maxZoom\<close> when above it.\<close>

definition sanitizeZoom :: "zoomValue \<Rightarrow> domPanZoom \<Rightarrow> (jsnum \<times> domPanZoom) result" where
  "sanitizeZoom z s =
     andThen
       (case z of
          ZoomNumber n \<Rightarrow> Inr (n, s)
        | _ \<Rightarrow>
            (case getWrapper s of (wrapper, s) \<Rightarrow>
             case getContainer s of (container, s) \<Rightarrow>
               (case wrapper of
                  None \<Rightarrow> Inl (TypeError NullProperty, s)
                | Some wrapper \<Rightarrow>
               (case container of
                  None \<Rightarrow> Inl (TypeError NullProperty, s)
                | Some container \<Rightarrow>
                    (let maxWidth = Num (clientWidth wrapper);
                         maxHeight = Num (clientHeight wrapper);
                         panZoomWidth = Num (clientWidth container);
                         panZoomHeight = Num (clientHeight container);
                         minZoomX = maxWidth / panZoomWidth;
                         minZoomY = maxHeight / panZoomHeight
                     in andThen (center True True s) (\<lambda>s.
                          Inr (if z = ZoomCover then jmax minZoomX minZoomY
                               else jmin minZoomX minZoomY, s)))))))
       (\<lambda>(n, s).
          (let n = (if n < minZoom (options s) then minZoom (options s) else n);
               n = (if n > maxZoom (options s) then maxZoom (options s) else n)
           in Inr (n, s)))"

definition getZoom :: "domPanZoom \<Rightarrow> jsnum" where
  "getZoom s = this_zoom s"

text \<open>The loop of \<open>getEventOffsetToParent\<close> up the offset parents of the target.\<close>

fun offsetLoop :: "offsetBox list \<Rightarrow> real \<Rightarrow> real \<Rightarrow> real \<times> real" where
  "offsetLoop [] x y = (x, y)"
| "offsetLoop (el # parents) x y =
     offsetLoop parents (x + (offsetLeft el - scrollLeft el)) (y + (offsetTop el - scrollTop el))"

definition getEventOffsetToParent :: "'a eventPoint_scheme \<Rightarrow> real \<times> real" where
  "getEventOffsetToParent ev =
     (case offsetLoop (target ev) 0 0 of (x, y) \<Rightarrow> (clientX ev - x, clientY ev - y))"

definition getEventOffsetToCenter ::
  "'a eventPoint_scheme option \<Rightarrow> domPanZoom \<Rightarrow> ((jsnum \<times> jsnum) \<times> domPanZoom) result" where
  "getEventOffsetToCenter ev s =
     (case getWrapper s of (wrapper, s) \<Rightarrow>
      case getContainer s of (container, s) \<Rightarrow>
        (case wrapper of
           None \<Rightarrow> Inl (TypeError NullProperty, s)
         | Some wrapper \<Rightarrow>
        (case container of
           None \<Rightarrow> Inl (TypeError NullProperty, s)
         | Some container \<Rightarrow>
             (let diffX = Num (clientWidth wrapper) - Num (clientWidth container);
                  diffY = Num (clientHeight wrapper) - Num (clientHeight container);
                  centerX = diffX * Num 0.5;
                  centerY = diffY * Num 0.5;
                  offsetToCenter =
                    (case ev of
                       None \<Rightarrow> (Num 0, Num 0)
                     | Some ev \<Rightarrow>
                         (let offsetToParent = getEventOffsetToParent ev
                          in ((Num (clientWidth wrapper) / Num 2 - Num (fst offsetToParent)
                                 - Num (scrollX s)) * Num (- 1),
                              (Num (clientHeight wrapper) / Num 2 - Num (snd offsetToParent)
                                 - Num (scrollY s)) * Num (- 1))));
                  offsetX = this_x s - centerX - fst offsetToCenter;
                  offsetY = this_y s - centerY - snd offsetToCenter
              in Inr ((offsetX, offsetY), s)))))"

definition adjustPositionByZoom ::
  "jsnum \<Rightarrow> jsnum \<Rightarrow> jsnum \<Rightarrow> domPanZoom \<Rightarrow> domPanZoom result" where
  "adjustPositionByZoom z ox oy s =
     (let currentZoom = this_zoom s;
          zoomGrowth = (z - currentZoom) / currentZoom
      in case getContainer s of (container, s) \<Rightarrow>
           (case container of
              None \<Rightarrow> Inl (TypeError NullProperty, s)
            | Some container \<Rightarrow>
                (let maxOffsetX = Num (clientWidth container) * Num 0.5 * currentZoom;
                     maxOffsetY = Num (clientHeight container) * Num 0.5 * currentZoom;
                     ox = (if ox > maxOffsetX then jmin ox maxOffsetX else ox);
                     ox = (if ox < maxOffsetX * Num (- 1) then jmax ox (maxOffsetX * Num (- 1))
                           else ox);
                     oy = (if oy > maxOffsetY then jmin oy maxOffsetY else oy);
                     oy = (if oy < maxOffsetY * Num (- 1) then jmax oy (maxOffsetY * Num (- 1))
                           else oy)
                 in Inr (s\<lparr>this_x := this_x s + ox * zoomGrowth,
                           this_y := this_y s + oy * zoomGrowth\<rparr>))))"

definition zoomTo :: "zoomValue \<Rightarrow> bool \<Rightarrow> domPanZoom \<Rightarrow> domPanZoom result" where
  "zoomTo z instant s =
     andThen (sanitizeZoom z s) (\<lambda>(z, s).
     andThen (getEventOffsetToCenter (None :: eventPoint option) s) (\<lambda>(offsetToCenter, s).
     andThen (adjustPositionByZoom z (fst offsetToCenter) (snd offsetToCenter) s) (\<lambda>s.
     andThen (setPosition instant (s\<lparr>this_zoom := z\<rparr>)) (\<lambda>s.
       Inr (fireEvent OnZoom (getPosition s) s)))))"

text \<open>The optional \<open>step\<close> of \<open>zoomIn\<close>, \<open>zoomOut\<close> and the \<open>pan\<close> methods: a boolean (then it
  is the \<open>instant\<close> flag), a number, or left out.\<close>

datatype stepArg = StepBoolean bool | StepNumber jsnum | StepAbsent

datatype zoomDirection = ZoomIn | ZoomOut

text \<open>\<open>step = step || dflt\<close>, after a boolean step has been moved to \<open>instant\<close>.\<close>

definition stepOr :: "stepArg \<Rightarrow> jsnum \<Rightarrow> jsnum" where
  "stepOr step dflt =
     (case step of StepNumber n \<Rightarrow> (if truthy n then n else dflt) | _ \<Rightarrow> dflt)"

text \<open>\<open>zoomInOut\<close>: \<open>zoomStep\<close> is declared \<open>const\<close>, so the assignment
  \<open>zoomStep = 1 / zoomStep\<close> of the direction \<open>'out'\<close> throws a \<open>TypeError\<close>.\<close>

definition zoomInOut :: "stepArg \<Rightarrow> bool \<Rightarrow> zoomDirection \<Rightarrow> domPanZoom \<Rightarrow> domPanZoom result" where
  "zoomInOut step instant direction s =
     (let instant = (case step of StepBoolean b \<Rightarrow> b | _ \<Rightarrow> instant);
          step = stepOr step (zoomStep (options s));
          currentZoom = this_zoom s;
          zoomStep' = (Num 100 + step) / Num 100
      in if direction = ZoomOut then Inl (TypeError ConstAssignment, s)
         else (let nextZoom = currentZoom * zoomStep'
               in zoomTo (ZoomNumber nextZoom) instant s))"

definition zoomIn :: "stepArg \<Rightarrow> bool \<Rightarrow> domPanZoom \<Rightarrow> domPanZoom result" where
  "zoomIn step instant s = zoomInOut step instant ZoomIn s"

definition zoomOut :: "stepArg \<Rightarrow> bool \<Rightarrow> domPanZoom \<Rightarrow> domPanZoom result" where
  "zoomOut step instant s = zoomInOut step instant ZoomOut s"

section \<open>Reading the pan, panning by a step\<close>

definition getPanX :: "bool \<Rightarrow> domPanZoom \<Rightarrow> (jsnum \<times> domPanZoom) result" where
  "getPanX pixelValues s =
     (case getWrapper s of (wrapper, s) \<Rightarrow>
      case getContainer s of (container, s) \<Rightarrow>
        (case wrapper of
           None \<Rightarrow> Inl (TypeError NullProperty, s)
         | Some wrapper \<Rightarrow>
        (case container of
           None \<Rightarrow> Inl (TypeError NullProperty, s)
         | Some container \<Rightarrow>
             (let panX = Num (clientWidth wrapper) * Num 0.5 + this_x s * Num (- 1);
                  panX = panX + (this_zoom s - Num 1) * (Num (clientWidth container) * Num 0.5);
                  percentX = (panX / (Num (clientWidth container) * this_zoom s)) * Num 100
              in Inr (if pixelValues then panX else percentX, s)))))"

definition getPanY :: "bool \<Rightarrow> domPanZoom \<Rightarrow> (jsnum \<times> domPanZoom) result" where
  "getPanY pixelValues s =
     (case getWrapper s of (wrapper, s) \<Rightarrow>
      case getContainer s of (container, s) \<Rightarrow>
        (case wrapper of
           None \<Rightarrow> Inl (TypeError NullProperty, s)
         | Some wrapper \<Rightarrow>
        (case container of
           None \<Rightarrow> Inl (TypeError NullProperty, s)
         | Some container \<Rightarrow>
             (let panY = Num (clientHeight wrapper) * Num 0.5 + this_y s * Num (- 1);
                  panY = panY + (this_zoom s - Num 1) * (Num (clientHeight container) * Num 0.5);
                  percentY = (panY / (Num (clientHeight container) * this_zoom s)) * Num 100
              in Inr (if pixelValues then panY else percentY, s)))))"

definition getPan :: "bool \<Rightarrow> domPanZoom \<Rightarrow> ((jsnum \<times> jsnum) \<times> domPanZoom) result" where
  "getPan pixelValues s =
     andThen (getPanX pixelValues s) (\<lambda>(px, s).
     andThen (getPanY pixelValues s) (\<lambda>(py, s). Inr ((px, py), s)))"

datatype panDirection = PanLeft | PanRight | PanUp | PanDown

text \<open>\<open>pan\<close>: both \<open>panWidth\<close> and \<open>panHeight\<close> are computed from
  \<open>container.clientWidth\<close>.\<close>

definition pan :: "stepArg \<Rightarrow> bool \<Rightarrow> panDirection \<Rightarrow> domPanZoom \<Rightarrow> domPanZoom result" where
  "pan step instant direction s =
     (let instant = (case step of StepBoolean b \<Rightarrow> b | _ \<Rightarrow> instant);
          step = stepOr step (panStep (options s))
      in case getContainer s of (container, s) \<Rightarrow>
           (case container of
              None \<Rightarrow> Inl (TypeError NullProperty, s)
            | Some container \<Rightarrow>
                (let panWidth = ((Num (clientWidth container) * step) / Num 100) * this_zoom s;
                     panHeight = ((Num (clientWidth container) * step) / Num 100) * this_zoom s;
                     s = (if direction = PanLeft then s\<lparr>this_x := this_x s + panWidth * Num (- 1)\<rparr>
                          else s);
                     s = (if direction = PanRight then s\<lparr>this_x := this_x s + panWidth\<rparr> else s);
                     s = (if direction = PanUp then s\<lparr>this_y := this_y s + panHeight * Num (- 1)\<rparr>
                          else s);
                     s = (if direction = PanDown then s\<lparr>this_y := this_y s + panHeight\<rparr> else s)
                 in andThen (setPosition instant s) (\<lambda>s.
                    Inr (fireEvent OnPan (getPosition s) s)))))"

definition panLeft :: "stepArg \<Rightarrow> bool \<Rightarrow> domPanZoom \<Rightarrow> domPanZoom result" where
  "panLeft step instant s = pan step instant PanLeft s"

definition panRight :: "stepArg \<Rightarrow> bool \<Rightarrow> domPanZoom \<Rightarrow> domPanZoom result" where
  "panRight step instant s = pan step instant PanRight s"

definition panUp :: "stepArg \<Rightarrow> bool \<Rightarrow> domPanZoom \<Rightarrow> domPanZoom result" where
  "panUp step instant s = pan step instant PanUp s"

definition panDown :: "stepArg \<Rightarrow> bool \<Rightarrow> domPanZoom \<Rightarrow> domPanZoom result" where
  "panDown step instant s = pan step instant PanDown s"

section \<open>Gestures\<close>

text \<open>\<open>getTouchEventsDistance\<close>: the first argument of \<open>Math.hypot\<close> is
  \<open>ev1.pageX - ev1.pageX\<close>. \<open>getTouchEventsCenter\<close>: \<open>pageY\<close> is
  \<open>(ev1.pageY + ev2.pageX) / 2\<close>.\<close>

definition getTouchEventsDistance ::
  "'a mouseEvent_scheme \<Rightarrow> 'b mouseEvent_scheme \<Rightarrow> jsnum" where
  "getTouchEventsDistance ev1 ev2 =
     jabs (jhypot (Num (pageX ev1) - Num (pageX ev1)) (Num (pageY ev1) - Num (pageY ev2)))"

definition getTouchEventsCenter ::
  "'a mouseEvent_scheme \<Rightarrow> 'b mouseEvent_scheme \<Rightarrow> touchCenter" where
  "getTouchEventsCenter ev1 ev2 =
     \<lparr>centerPageX = (pageX ev1 + pageX ev2) / 2,
      centerPageY = (pageY ev1 + pageX ev2) / 2,
      centerClientX = (clientX ev1 + clientX ev2) / 2,
      centerClientY = (clientY ev1 + clientY ev2) / 2\<rparr>"

text \<open>The event of a drag: a mouse move with its page coordinates, or a touch move with
  the page coordinates of its touches. \<open>eventPage\<close> is what the handler reads of \<open>event\<close>:
  the first touch when there is one, the event itself otherwise (a touch event has no
  page coordinates of its own).\<close>

datatype moveEvent = MouseMove real real | TouchMove "(real \<times> real) list"

fun eventPage :: "moveEvent \<Rightarrow> jsnum \<times> jsnum" where
  "eventPage (MouseMove px py) = (Num px, Num py)"
| "eventPage (TouchMove []) = (NaN, NaN)"
| "eventPage (TouchMove (t # ts)) = (Num (fst t), Num (snd t))"

definition setPositionEvent :: "moveEvent \<Rightarrow> domPanZoom \<Rightarrow> domPanZoom result" where
  "setPositionEvent ev s =
     (if blockPan s then Inr s
      else
        (let event = eventPage ev;
             movementX = (case previousEvent s of None \<Rightarrow> Num 0
                          | Some previous \<Rightarrow> fst event - fst previous);
             movementY = (case previousEvent s of None \<Rightarrow> Num 0
                          | Some previous \<Rightarrow> snd event - snd previous);
             s = s\<lparr>this_x := this_x s + movementX, this_y := this_y s + movementY\<rparr>
         in andThen (setPosition True s) (\<lambda>s.
              (let s = s\<lparr>previousEvent := Some event\<rparr>
               in Inr (fireEvent OnPan (getPosition s) s)))))"

text \<open>The handlers of \<open>mousedown\<close>/\<open>touchstart\<close> and \<open>mouseup\<close>/\<open>touchend\<close>. The cursor
  they set and the listeners they add and remove are the page's; what remains is that
  the first dereferences the wrapper and the second forgets the previous event.\<close>

definition mouseDownTouchStartEvent :: "domPanZoom \<Rightarrow> domPanZoom result" where
  "mouseDownTouchStartEvent s =
     (case getWrapper s of (wrapper, s) \<Rightarrow>
        (case wrapper of
           None \<Rightarrow> Inl (TypeError NullProperty, s)
         | Some _ \<Rightarrow> Inr s))"

definition mouseUpTouchEndEvent :: "domPanZoom \<Rightarrow> domPanZoom" where
  "mouseUpTouchEndEvent s = s\<lparr>previousEvent := None\<rparr>"


definition pointerDownEvent :: "pointerEvent \<Rightarrow> domPanZoom \<Rightarrow> domPanZoom" where
  "pointerDownEvent ev s =
     (let s = s\<lparr>evCache := evCache s @ [ev]\<rparr>;
          s = s\<lparr>zoomCache := this_zoom s, xCache := this_x s, yCache := this_y s\<rparr>
      in if length (evCache s) = 2 then
           s\<lparr>blockPan := True,
             pinchDiffCache := getTouchEventsDistance (evCache s ! 0) (evCache s ! 1),
             touchEventsCenterCache :=
               Some (getTouchEventsCenter (evCache s ! 0) (evCache s ! 1))\<rparr>
         else s)"

text \<open>The loop of \<open>pointerMoveEvent\<close>: the first cached event with the pointer's id is
  replaced.\<close>

fun replaceFirst :: "pointerEvent \<Rightarrow> pointerEvent list \<Rightarrow> pointerEvent list" where
  "replaceFirst ev [] = []"
| "replaceFirst ev (e # es) =
     (if pointerId ev = pointerId e then ev # es else e # replaceFirst ev es)"

definition pointerMoveEvent :: "pointerEvent \<Rightarrow> domPanZoom \<Rightarrow> domPanZoom result" where
  "pointerMoveEvent ev s =
     (let s = s\<lparr>evCache := replaceFirst ev (evCache s)\<rparr>
      in if length (evCache s) = 2 then
           (let pinchDiff = getTouchEventsDistance (evCache s ! 0) (evCache s ! 1);
                pinchDiff = pinchDiff - pinchDiffCache s
            in case getContainer s of (container, s) \<Rightarrow>
                 (case container of
                    None \<Rightarrow> Inl (TypeError NullProperty, s)
                  | Some container \<Rightarrow>
                      (let pinchDiffPercent = pinchDiff / Num (clientWidth container);
                           pinchDiffPercent = pinchDiffPercent * zoomSpeedPinch (options s);
                           pinchDiffPercent = pinchDiffPercent + Num 1
                       in andThen (sanitizeZoom (ZoomNumber (zoomCache s * pinchDiffPercent)) s)
                            (\<lambda>(nextZoom, s).
                          (let touchEventsCenter =
                                 getTouchEventsCenter (evCache s ! 0) (evCache s ! 1)
                           in andThen
                                (getEventOffsetToCenter
                                   (Some \<lparr>target = target (evCache s ! 0),
                                          clientX = centerClientX touchEventsCenter,
                                          clientY = centerClientY touchEventsCenter\<rparr>) s)
                                (\<lambda>(offsetToCenter, s).
                              andThen
                                (adjustPositionByZoom nextZoom (fst offsetToCenter)
                                   (snd offsetToCenter) s)
                                (\<lambda>s.
                              (case touchEventsCenterCache s of
                                 None \<Rightarrow> Inl (TypeError NullProperty, s)
                               | Some cached \<Rightarrow>
                                   (let diffX = centerClientX touchEventsCenter
                                                  - centerClientX cached;
                                        diffY = centerClientY touchEventsCenter
                                                  - centerClientY cached;
                                        s = s\<lparr>this_x := xCache s + Num diffX\<rparr>;
                                        s = s\<lparr>this_y := yCache s + Num diffY\<rparr>;
                                        s = s\<lparr>this_zoom := nextZoom\<rparr>
                                    in andThen (setPosition True s) (\<lambda>s.
                                         (let s = fireEvent OnZoom (getPosition s) s
                                          in Inr (fireEvent OnPan (getPosition s) s))))))))))))
         else Inr s)"

text \<open>The loop of \<open>pointerUpEvent\<close>: the first cached event with the pointer's id is
  removed. The handler serves \<open>pointerup\<close>, \<open>pointercancel\<close>, \<open>pointerout\<close> and
  \<open>pointerleave\<close>.\<close>

fun spliceFirst :: "pointerEvent \<Rightarrow> pointerEvent list \<Rightarrow> pointerEvent list" where
  "spliceFirst ev [] = []"
| "spliceFirst ev (e # es) =
     (if pointerId e = pointerId ev then es else e # spliceFirst ev es)"

definition pointerUpEvent :: "pointerEvent \<Rightarrow> domPanZoom \<Rightarrow> domPanZoom" where
  "pointerUpEvent ev s =
     (let s = s\<lparr>evCache := spliceFirst ev (evCache s)\<rparr>
      in if length (evCache s) < 2 then s\<lparr>blockPan := False\<rparr> else s)"

section \<open>Construction\<close>

text \<open>\<open>attachEvents\<close> registers the handlers above on the wrapper and the document. The
  registration is the page's; what remains is that the wrapper is dereferenced.\<close>

definition attachEvents :: "domPanZoom \<Rightarrow> domPanZoom result" where
  "attachEvents s =
     (case getWrapper s of (wrapper, s) \<Rightarrow>
        (case wrapper of
           None \<Rightarrow> Inl (TypeError NullProperty, s)
         | Some _ \<Rightarrow> Inr s))"

text \<open>\<open>init\<close>. The first dereference is \<open>wrapper.style.cursor = 'grab'\<close>, after both
  elements have been looked up.\<close>

definition init :: "domPanZoom \<Rightarrow> domPanZoom result" where
  "init s =
     (case getWrapper s of (wrapper, s) \<Rightarrow>
      case getContainer s of (container, s) \<Rightarrow>
        (case wrapper of
           None \<Rightarrow> Inl (TypeError NullProperty, s)
         | Some wrapper \<Rightarrow>
             (let s = s\<lparr>evCache := [], pinchDiffCache := Num 0\<rparr>
              in andThen (attachEvents s) (\<lambda>s.
                 andThen
                   (if bounds (options s) \<noteq> BoundsOff then
                      (case container of
                         None \<Rightarrow> Inl (TypeError NullProperty, s)
                       | Some container \<Rightarrow>
                           (let maxWidth = Num (clientWidth wrapper);
                                maxHeight = Num (clientHeight wrapper);
                                panZoomWidth = Num (clientWidth container);
                                panZoomHeight = Num (clientHeight container);
                                minZoomX = maxWidth / panZoomWidth;
                                minZoomY = maxHeight / panZoomHeight
                            in if bounds (options s) = BoundsCover then
                                 Inr (s\<lparr>options := (options s)
                                        \<lparr>minZoom :=
                                           jmax (jmax (minZoom (options s)) minZoomX) minZoomY\<rparr>\<rparr>)
                               else
                                 Inr (s\<lparr>options := (options s)
                                        \<lparr>minZoom :=
                                           jmax (minZoom (options s))
                                             (jmin minZoomX minZoomY)\<rparr>\<rparr>)))
                    else Inr s) (\<lambda>s.
                 andThen (sanitizeZoom (initialZoom (options s)) s) (\<lambda>(z, s).
                   (let s = s\<lparr>this_zoom := z\<rparr>;
                        s = s\<lparr>this_x := initialPanX (options s)\<rparr>;
                        s = s\<lparr>this_y := initialPanY (options s)\<rparr>
                    in andThen
                         (if optCenter (options s) then center True False s
                          else panTo (initialPanX (options s)) (initialPanY (options s))
                                 True False s) (\<lambda>s.
                       Inr (fireEvent OnInit (getPosition s) s)))))))))"

text \<open>The constructor: the object with the merged options \<open>opts\<close> and no field assigned
  yet, on a page given by its \<open>querySelector\<close> and scroll offsets, is initialised.\<close>

definition newObject ::
  "options \<Rightarrow> (string \<Rightarrow> element option) \<Rightarrow> real \<Rightarrow> real \<Rightarrow> domPanZoom" where
  "newObject opts query sx sy =
     \<lparr>options = opts, wrapperElement = None, containerElement = None,
      this_zoom = NaN, this_x = NaN, this_y = NaN, evCache = [], pinchDiffCache = NaN,
      zoomCache = NaN, xCache = NaN, yCache = NaN, touchEventsCenterCache = None,
      blockPan = False, previousEvent = None, querySelector = query, scrollX = sx,
      scrollY = sy, console = [], styleTransition = None, styleTransform = None,
      fired = []\<rparr>"

definition construct ::
  "options \<Rightarrow> (string \<Rightarrow> element option) \<Rightarrow> real \<Rightarrow> real \<Rightarrow> domPanZoom result" where
  "construct opts query sx sy = init (newObject opts query sx sy)"

section \<open>Notions used in the statements\<close>

subsection \<open>Instances in use\<close>

text \<open>An instance whose two elements have been found: every later \<open>getWrapper\<close> and
  \<open>getContainer\<close> answers from the cache.\<close>

definition ready :: "domPanZoom \<Rightarrow> element \<Rightarrow> element \<Rightarrow> bool" where
  "ready s wrapper container =
     (wrapperElement s = Some wrapper \<and> containerElement s = Some container)"

text \<open>What a geometry method leaves alone: everything but the position, the style and the
  notifications.\<close>

definition sameSetup :: "domPanZoom \<Rightarrow> domPanZoom \<Rightarrow> bool" where
  "sameSetup s s' =
     (options s' = options s \<and> wrapperElement s' = wrapperElement s
      \<and> containerElement s' = containerElement s \<and> evCache s' = evCache s
      \<and> pinchDiffCache s' = pinchDiffCache s \<and> zoomCache s' = zoomCache s
      \<and> xCache s' = xCache s \<and> yCache s' = yCache s
      \<and> touchEventsCenterCache s' = touchEventsCenterCache s
      \<and> blockPan s' = blockPan s \<and> console s' = console s
      \<and> scrollX s' = scrollX s \<and> scrollY s' = scrollY s)"


text \<open>The position, and the zoom, that a method leaves, or the error it throws.\<close>

definition positionAfter :: "domPanZoom result \<Rightarrow> error + position" where
  "positionAfter r = map_sum fst getPosition r"

definition zoomAfter :: "domPanZoom result \<Rightarrow> error + jsnum" where
  "zoomAfter r = map_sum fst this_zoom r"

subsection \<open>Notions of the specification\<close>










subsection \<open>Blocks of the source, as functions of the numbers they read\<close>

text \<open>One axis of the block \<open>Fit to bounds\<close>, and the offset \<open>setPosition\<close> leaves on an
  axis (fitted when \<open>bounds\<close> is set).\<close>

definition fitAxis :: "jsnum \<Rightarrow> jsnum \<Rightarrow> jsnum \<Rightarrow> jsnum \<Rightarrow> jsnum" where
  "fitAxis wrapperSize containerSize z v =
     (let containerZoomSize = containerSize * z;
          upper = (containerSize / Num 2) * (z - Num 1);
          lower = upper * Num (- 1) + wrapperSize - containerSize
      in if containerZoomSize < wrapperSize then
           (let v = (if v < upper then upper else v)
            in (if v > lower then lower else v))
         else jmax (jmin v upper) lower)"

definition committed :: "domPanZoom \<Rightarrow> jsnum \<Rightarrow> jsnum \<Rightarrow> jsnum \<Rightarrow> jsnum" where
  "committed s wrapperSize containerSize v =
     (if bounds (options s) \<noteq> BoundsOff then fitAxis wrapperSize containerSize (this_zoom s) v
      else v)"

text \<open>One axis of \<open>panTo\<close>, and of \<open>getPanX\<close> and \<open>getPanY\<close> in pixels and in percent.\<close>

definition panToOffset :: "jsnum \<Rightarrow> jsnum \<Rightarrow> jsnum \<Rightarrow> jsnum \<Rightarrow> jsnum" where
  "panToOffset wrapperSize containerSize z p =
     ((containerSize * z * p) / Num 100) * Num (- 1)
       + (z - Num 1) * (containerSize * Num 0.5) + wrapperSize * Num 0.5"

definition panPixels :: "jsnum \<Rightarrow> jsnum \<Rightarrow> jsnum \<Rightarrow> jsnum \<Rightarrow> jsnum" where
  "panPixels wrapperSize containerSize z v =
     wrapperSize * Num 0.5 + v * Num (- 1) + (z - Num 1) * (containerSize * Num 0.5)"

definition panPercent :: "jsnum \<Rightarrow> jsnum \<Rightarrow> jsnum \<Rightarrow> jsnum \<Rightarrow> jsnum" where
  "panPercent wrapperSize containerSize z v =
     (panPixels wrapperSize containerSize z v / (containerSize * z)) * Num 100"

text \<open>The two adjustments that end \<open>sanitizeZoom\<close>, and the number they adjust: the number
  given, or the larger (\<open>'cover'\<close>) or smaller (\<open>'contain'\<close>) of the ratios of the viewport's
  to the content's width and height.\<close>

definition adjustForLimits :: "jsnum \<Rightarrow> jsnum \<Rightarrow> jsnum \<Rightarrow> jsnum" where
  "adjustForLimits n lo hi =
     (let n = (if n < lo then lo else n) in if n > hi then hi else n)"

fun fitZoom :: "zoomValue \<Rightarrow> element \<Rightarrow> element \<Rightarrow> jsnum" where
  "fitZoom (ZoomNumber n) wrapper container = n"
| "fitZoom ZoomCover wrapper container =
     jmax (Num (clientWidth wrapper) / Num (clientWidth container))
          (Num (clientHeight wrapper) / Num (clientHeight container))"
| "fitZoom ZoomContain wrapper container =
     jmin (Num (clientWidth wrapper) / Num (clientWidth container))
          (Num (clientHeight wrapper) / Num (clientHeight container))"

text \<open>The block \<open>Adjust minZoom for option bounds\<close> of \<open>init\<close>: the \<open>minZoom\<close> it leaves in
  the options.\<close>

definition adjustedMinZoom :: "options \<Rightarrow> element \<Rightarrow> element \<Rightarrow> jsnum" where
  "adjustedMinZoom opts wrapper container =
     (let minZoomX = Num (clientWidth wrapper) / Num (clientWidth container);
          minZoomY = Num (clientHeight wrapper) / Num (clientHeight container)
      in case bounds opts of
           BoundsOff \<Rightarrow> minZoom opts
         | BoundsCover \<Rightarrow> jmax (jmax (minZoom opts) minZoomX) minZoomY
         | BoundsContain \<Rightarrow> jmax (minZoom opts) (jmin minZoomX minZoomY))"


definition pinchDiffPercent :: "domPanZoom \<Rightarrow> element \<Rightarrow> pointerEvent list \<Rightarrow> jsnum" where
  "pinchDiffPercent s container cache =
     ((getTouchEventsDistance (cache ! 0) (cache ! 1) - pinchDiffCache s)
        / Num (clientWidth container)) * zoomSpeedPinch (options s) + Num 1"

definition panStepPixels :: "domPanZoom \<Rightarrow> element \<Rightarrow> stepArg \<Rightarrow> jsnum" where
  "panStepPixels s container step =
     ((Num (clientWidth container) * stepOr step (panStep (options s))) / Num 100) * this_zoom s"

subsection \<open>Sequences of pointer events\<close>

text \<open>The pointer events the wrapper receives (\<open>pointerup\<close>, \<open>pointercancel\<close>, \<open>pointerout\<close>
  and \<open>pointerleave\<close> share one handler), and a sequence of them, which ends at the first
  exception.\<close>

datatype pointerInput = PointerDown pointerEvent | PointerMove pointerEvent | PointerUp pointerEvent

fun pointerInputStep :: "pointerInput \<Rightarrow> domPanZoom \<Rightarrow> domPanZoom result" where
  "pointerInputStep (PointerDown ev) s = Inr (pointerDownEvent ev s)"
| "pointerInputStep (PointerMove ev) s = pointerMoveEvent ev s"
| "pointerInputStep (PointerUp ev) s = Inr (pointerUpEvent ev s)"

fun pointerInputs :: "pointerInput list \<Rightarrow> domPanZoom \<Rightarrow> domPanZoom result" where
  "pointerInputs [] s = Inr s"
| "pointerInputs (i # inputs) s = andThen (pointerInputStep i s) (pointerInputs inputs)"

text \<open>What holds of the cache between pointer events: \<open>blockPan\<close> is set exactly when the
  cache has two entries or more, and then the pinch center has been captured.\<close>

definition pinchTracked :: "domPanZoom \<Rightarrow> bool" where
  "pinchTracked s =
     (blockPan s = (2 \<le> length (evCache s))
      \<and> (if 2 \<le> length (evCache s) then touchEventsCenterCache s \<noteq> None else True))"

subsection \<open>Instances and events to try the statements on\<close>

text \<open>A viewport of 800 by 600 around a content of 1600 by 1200 with the default options,
  on a page where no selector matches; the instance as the constructor leaves it (zoom
  \<open>0.5\<close>, centered); the same with \<open>bounds\<close> off.\<close>

definition exampleWrapper :: element where
  "exampleWrapper = \<lparr>clientWidth = 800, clientHeight = 600\<rparr>"

definition exampleContainer :: element where
  "exampleContainer = \<lparr>clientWidth = 1600, clientHeight = 1200\<rparr>"

definition exampleOptions :: options where
  "exampleOptions =
     defaultOptions\<lparr>optWrapperElement := AnElement exampleWrapper,
                    optPanZoomElement := AnElement exampleContainer\<rparr>"

definition noDocument :: "string \<Rightarrow> element option" where
  "noDocument sel = None"

definition exampleInstance :: domPanZoom where
  "exampleInstance =
     (newObject (exampleOptions\<lparr>minZoom := Num 0.5\<rparr>) noDocument 0 0)
       \<lparr>wrapperElement := Some exampleWrapper, containerElement := Some exampleContainer,
        this_zoom := Num 0.5, this_x := Num (- 400), this_y := Num (- 300),
        pinchDiffCache := Num 0, styleTransform := Some (Num 0.5, Num (- 400), Num (- 300))\<rparr>"

definition exampleUnbounded :: domPanZoom where
  "exampleUnbounded = exampleInstance\<lparr>options := (options exampleInstance)\<lparr>bounds := BoundsOff\<rparr>\<rparr>"


definition examplePointer :: "int \<Rightarrow> real \<Rightarrow> real \<Rightarrow> pointerEvent" where
  "examplePointer i px py =
     \<lparr>target = [], clientX = px, clientY = py, pageX = px, pageY = py, pointerId = i\<rparr>"


text \<open>An instance with zoom \<open>0\<close>: \<open>bounds\<close> off, \<open>minZoom\<close> and \<open>initialZoom\<close> \<open>0\<close>, as the
  constructor leaves it.\<close>

definition zeroZoomOptions :: options where
  "zeroZoomOptions =
     exampleOptions\<lparr>bounds := BoundsOff, minZoom := Num 0, initialZoom := ZoomNumber (Num 0)\<rparr>"

definition zeroZoomInstance :: domPanZoom where
  "zeroZoomInstance =
     (newObject zeroZoomOptions noDocument 0 0)
       \<lparr>wrapperElement := Some exampleWrapper, containerElement := Some exampleContainer,
        this_zoom := Num 0, this_x := Num (- 400), this_y := Num (- 300),
        pinchDiffCache := Num 0, styleTransform := Some (Num 0, Num (- 400), Num (- 300))\<rparr>"



text \<open>The example instance after its elements have collapsed to size zero (a hidden
  widget), and the default options on a viewport and a content of size zero.\<close>

definition collapsedInstance :: domPanZoom where
  "collapsedInstance =
     exampleInstance\<lparr>wrapperElement := Some \<lparr>clientWidth = 0, clientHeight = 0\<rparr>,
                     containerElement := Some \<lparr>clientWidth = 0, clientHeight = 0\<rparr>\<rparr>"

definition zeroSizeOptions :: options where
  "zeroSizeOptions =
     defaultOptions\<lparr>optWrapperElement := AnElement \<lparr>clientWidth = 0, clientHeight = 0\<rparr>,
                    optPanZoomElement := AnElement \<lparr>clientWidth = 0, clientHeight = 0\<rparr>\<rparr>"


section \<open>Basic facts\<close>

lemma andThen_Inr [simp]: "andThen (Inr a) f = f a"
  by (simp add: andThen_def)

lemma andThen_Inl [simp]: "andThen (Inl e) f = Inl e"
  by (simp add: andThen_def)

lemma getWrapper_cached: "wrapperElement s = Some w \<Longrightarrow> getWrapper s = (Some w, s)"
  by (simp add: getWrapper_def)

lemma getContainer_cached: "containerElement s = Some c \<Longrightarrow> getContainer s = (Some c, s)"
  by (simp add: getContainer_def)

lemma jmin_Num [simp]: "jmin (Num a) (Num b) = Num (min a b)"
  by (simp add: min_def)

lemma jmax_Num [simp]: "jmax (Num a) (Num b) = Num (max a b)"
  by (simp add: max_def)

lemmas jsnum_ops =
  plus_jsnum_def minus_jsnum_def times_jsnum_def divide_jsnum_def less_jsnum_def

lemma sameSetup_refl [simp]: "sameSetup s s"
  by (simp add: sameSetup_def)

lemma sameSetup_trans: "sameSetup s s1 \<Longrightarrow> sameSetup s1 s2 \<Longrightarrow> sameSetup s s2"
  by (simp add: sameSetup_def)

lemma ready_sameSetup: "ready s w c \<Longrightarrow> sameSetup s s' \<Longrightarrow> ready s' w c"
  by (simp add: sameSetup_def ready_def)

lemma fireEvent_update:
  "fireEvent e p s =
     s\<lparr>fired := (if e \<in> set (callbacks (options s)) then fired s @ [(e, p)] else fired s)\<rparr>"
  by (simp add: fireEvent_def)

lemma sameSetup_fireEvent [simp]: "sameSetup s (fireEvent e p s') = sameSetup s s'"
  by (simp add: sameSetup_def fireEvent_def)

lemma fireEvent_fields [simp]:
  "this_zoom (fireEvent e p s) = this_zoom s"
  "this_x (fireEvent e p s) = this_x s"
  "this_y (fireEvent e p s) = this_y s"
  "options (fireEvent e p s) = options s"
  by (simp_all add: fireEvent_def)

lemma ready_exampleInstance: "ready exampleInstance exampleWrapper exampleContainer"
  by (simp add: ready_def exampleInstance_def)

section \<open>The commit: \<open>setPosition\<close>\<close>

lemma transition_ready:
  "containerElement s = Some c \<Longrightarrow>
   transition enabled s =
     Inr (s\<lparr>styleTransition :=
             (if enabled then Some (transitionSpeed (options s)) else None)\<rparr>)"
  by (simp add: transition_def getContainer_cached)

lemma fitToBounds_ready:
  assumes "ready s w c"
  shows "fitToBounds s =
           Inr (s\<lparr>this_x := fitAxis (Num (clientWidth w)) (Num (clientWidth c))
                              (this_zoom s) (this_x s),
                   this_y := fitAxis (Num (clientHeight w)) (Num (clientHeight c))
                              (this_zoom s) (this_y s)\<rparr>)"
  using assms unfolding ready_def fitToBounds_def fitAxis_def Let_def
  by (simp add: getWrapper_cached getContainer_cached
      del: plus_jsnum_def minus_jsnum_def times_jsnum_def divide_jsnum_def less_jsnum_def)

lemma setPosition_ready:
  assumes "ready s w c"
  shows "\<exists>s'. setPosition instant s = Inr s' \<and> sameSetup s s' \<and> this_zoom s' = this_zoom s
           \<and> this_x s' =
               (if bounds (options s) \<noteq> BoundsOff
                then fitAxis (Num (clientWidth w)) (Num (clientWidth c)) (this_zoom s) (this_x s)
                else this_x s)
           \<and> this_y s' =
               (if bounds (options s) \<noteq> BoundsOff
                then fitAxis (Num (clientHeight w)) (Num (clientHeight c)) (this_zoom s) (this_y s)
                else this_y s)"
proof -
  let ?s1 = "s\<lparr>styleTransition :=
                  (if \<not> instant then Some (transitionSpeed (options s)) else None)\<rparr>"
  have c: "containerElement s = Some c" using assms by (simp add: ready_def)
  have r1: "ready ?s1 w c" using assms by (simp add: ready_def)
  show ?thesis
    unfolding setPosition_def
    by (simp add: transition_ready [OF c] fitToBounds_ready [OF r1] getContainer_cached c
        sameSetup_def Let_def fireEvent_update)
qed







section \<open>Panning\<close>

lemma panTo_ready:
  assumes "ready s w c"
  shows "\<exists>s'. panTo px py instant ignorePosition s = Inr s' \<and> sameSetup s s'
           \<and> this_zoom s' = this_zoom s
           \<and> this_x s' =
               (let panX = panToOffset (Num (clientWidth w)) (Num (clientWidth c)) (this_zoom s) px
                in if ignorePosition then panX
                   else committed s (Num (clientWidth w)) (Num (clientWidth c)) panX)
           \<and> this_y s' =
               (let panY = panToOffset (Num (clientHeight w)) (Num (clientHeight c)) (this_zoom s) py
                in if ignorePosition then panY
                   else committed s (Num (clientHeight w)) (Num (clientHeight c)) panY)"
proof -
  let ?s1 = "s\<lparr>this_x := panToOffset (Num (clientWidth w)) (Num (clientWidth c)) (this_zoom s) px,
                this_y := panToOffset (Num (clientHeight w)) (Num (clientHeight c)) (this_zoom s) py\<rparr>"
  have w: "wrapperElement s = Some w" and c: "containerElement s = Some c"
    using assms by (simp_all add: ready_def)
  have r1: "ready ?s1 w c" using assms by (simp add: ready_def)
  have eq: "panTo px py instant ignorePosition s =
          andThen (if \<not> ignorePosition then setPosition instant ?s1 else Inr ?s1)
            (\<lambda>s. Inr (fireEvent OnPan (getPosition s) s))"
    unfolding panTo_def panToOffset_def Let_def
    by (simp add: getWrapper_cached [OF w] getContainer_cached [OF c] del: jsnum_ops)
  show ?thesis
  proof (cases ignorePosition)
    case True
    then show ?thesis unfolding eq by (simp add: Let_def sameSetup_def fireEvent_update)
  next
    case False
    from setPosition_ready [OF r1, of instant] obtain s' where
      s': "setPosition instant ?s1 = Inr s'" "sameSetup ?s1 s'" "this_zoom s' = this_zoom ?s1"
        "this_x s' = (if bounds (options ?s1) \<noteq> BoundsOff
                           then fitAxis (Num (clientWidth w)) (Num (clientWidth c)) (this_zoom ?s1) (this_x ?s1)
                           else this_x ?s1)"
        "this_y s' = (if bounds (options ?s1) \<noteq> BoundsOff
                           then fitAxis (Num (clientHeight w)) (Num (clientHeight c)) (this_zoom ?s1) (this_y ?s1)
                           else this_y ?s1)"
      by blast
    have "sameSetup s s'" using s'(2) by (simp add: sameSetup_def)
    then show ?thesis unfolding eq using False s' by (simp add: Let_def committed_def)
  qed
qed

lemma pan_ready:
  assumes "ready s w c"
  shows "\<exists>s'. pan step instant direction s = Inr s' \<and> sameSetup s s'
           \<and> this_zoom s' = this_zoom s
           \<and> this_x s' = committed s (Num (clientWidth w)) (Num (clientWidth c))
                (if direction = PanLeft then this_x s + panStepPixels s c step * Num (- 1)
                 else if direction = PanRight then this_x s + panStepPixels s c step
                 else this_x s)
           \<and> this_y s' = committed s (Num (clientHeight w)) (Num (clientHeight c))
                (if direction = PanUp then this_y s + panStepPixels s c step * Num (- 1)
                 else if direction = PanDown then this_y s + panStepPixels s c step
                 else this_y s)"
proof -
  define d where "d = panStepPixels s c step"
  define s1 where "s1 = s\<lparr>this_x := (if direction = PanLeft then this_x s + d * Num (- 1)
                 else if direction = PanRight then this_x s + d
                 else this_x s),
                this_y := (if direction = PanUp then this_y s + d * Num (- 1)
                 else if direction = PanDown then this_y s + d
                 else this_y s)\<rparr>"
  define i where "i = (case step of StepBoolean b \<Rightarrow> b | _ \<Rightarrow> instant)"
  have c: "containerElement s = Some c" using assms by (simp add: ready_def)
  have r1: "ready s1 w c" using assms by (simp add: ready_def s1_def)
  have eq: "pan step instant direction s =
          andThen (setPosition i s1) (\<lambda>s. Inr (fireEvent OnPan (getPosition s) s))"
    unfolding pan_def Let_def s1_def d_def panStepPixels_def i_def
    by (cases direction) (simp_all add: getContainer_cached [OF c] del: jsnum_ops)
  from setPosition_ready [OF r1, of i] obtain s' where
      s': "setPosition i s1 = Inr s'" "sameSetup s1 s'" "this_zoom s' = this_zoom s1"
        "this_x s' = (if bounds (options s1) \<noteq> BoundsOff
                           then fitAxis (Num (clientWidth w)) (Num (clientWidth c)) (this_zoom s1) (this_x s1)
                           else this_x s1)"
        "this_y s' = (if bounds (options s1) \<noteq> BoundsOff
                           then fitAxis (Num (clientHeight w)) (Num (clientHeight c)) (this_zoom s1) (this_y s1)
                           else this_y s1)"
      by blast
  have "sameSetup s s'" using s'(2) by (simp add: sameSetup_def s1_def)
  then show ?thesis unfolding eq using s'
    by (simp add: committed_def s1_def d_def del: jsnum_ops)
qed

text \<open>
  Claim C10, amended. The step of \<open>panUp\<close> and \<open>panDown\<close> is computed from the content's
  width, not its height: it is \<open>((contentWidth * step) / 100) * zoom\<close>, the same number of
  pixels as the step of \<open>panLeft\<close> and \<open>panRight\<close>, whatever the content's height, where
  \<open>step\<close> is the step given, or \<open>panStep\<close> when none, \<open>0\<close> or \<open>NaN\<close> is given. Each method
  adds or subtracts it and commits the result with \<open>setPosition\<close>: with \<open>bounds\<close> off the
  offset has moved by exactly the step, with \<open>bounds\<close> on the moved offset is fitted to
  the clamp window.
\<close>

theorem pan_step_from_width:
  assumes "ready s w c"
  shows "\<exists>sl sr su sd.
           panLeft step instant s = Inr sl \<and> panRight step instant s = Inr sr
           \<and> panUp step instant s = Inr su \<and> panDown step instant s = Inr sd
           \<and> this_x sl = committed s (Num (clientWidth w)) (Num (clientWidth c))
                           (this_x s + panStepPixels s c step * Num (- 1))
           \<and> this_x sr = committed s (Num (clientWidth w)) (Num (clientWidth c))
                           (this_x s + panStepPixels s c step)
           \<and> this_y su = committed s (Num (clientHeight w)) (Num (clientHeight c))
                           (this_y s + panStepPixels s c step * Num (- 1))
           \<and> this_y sd = committed s (Num (clientHeight w)) (Num (clientHeight c))
                           (this_y s + panStepPixels s c step)
           \<and> panStepPixels s c step =
               ((Num (clientWidth c) * stepOr step (panStep (options s))) / Num 100) * this_zoom s
           \<and> (bounds (options s) = BoundsOff \<longrightarrow>
                 this_y su = this_y s + panStepPixels s c step * Num (- 1)
                 \<and> this_y sd = this_y s + panStepPixels s c step
                 \<and> this_x sl = this_x s + panStepPixels s c step * Num (- 1)
                 \<and> this_x sr = this_x s + panStepPixels s c step)"
proof -
  obtain sl where sl: "pan step instant PanLeft s = Inr sl"
    "this_x sl = committed s (Num (clientWidth w)) (Num (clientWidth c))
                           (this_x s + panStepPixels s c step * Num (- 1))"
    using pan_ready [OF assms, of step instant PanLeft] by auto
  obtain sr where sr: "pan step instant PanRight s = Inr sr"
    "this_x sr = committed s (Num (clientWidth w)) (Num (clientWidth c))
                           (this_x s + panStepPixels s c step)"
    using pan_ready [OF assms, of step instant PanRight] by auto
  obtain su where su: "pan step instant PanUp s = Inr su"
    "this_y su = committed s (Num (clientHeight w)) (Num (clientHeight c))
                           (this_y s + panStepPixels s c step * Num (- 1))"
    using pan_ready [OF assms, of step instant PanUp] by auto
  obtain sd where sd: "pan step instant PanDown s = Inr sd"
    "this_y sd = committed s (Num (clientHeight w)) (Num (clientHeight c))
                           (this_y s + panStepPixels s c step)"
    using pan_ready [OF assms, of step instant PanDown] by auto
  show ?thesis
    using sl sr su sd
    by (simp add: panLeft_def panRight_def panUp_def panDown_def committed_def
        panStepPixels_def del: jsnum_ops)
qed

lemma ready_exampleUnbounded: "ready exampleUnbounded exampleWrapper exampleContainer"
  by (simp add: ready_def exampleUnbounded_def exampleInstance_def)

theorem pan_step_from_width_witness:
  "ready exampleUnbounded exampleWrapper exampleContainer
   \<and> (\<exists>sl sr su sd.
         panLeft StepAbsent False exampleUnbounded = Inr sl
         \<and> panRight StepAbsent False exampleUnbounded = Inr sr
         \<and> panUp StepAbsent False exampleUnbounded = Inr su
         \<and> panDown StepAbsent False exampleUnbounded = Inr sd
         \<and> this_x sl = Num (- 480) \<and> this_x sr = Num (- 320)
         \<and> this_y su = Num (- 380) \<and> this_y sd = Num (- 220))"
proof -
  have px: "panStepPixels exampleUnbounded exampleContainer StepAbsent = Num 80"
    by (simp add: panStepPixels_def stepOr_def exampleUnbounded_def exampleInstance_def
        newObject_def exampleOptions_def defaultOptions_def exampleContainer_def)
  have f: "bounds (options exampleUnbounded) = BoundsOff"
    "this_x exampleUnbounded = Num (- 400)" "this_y exampleUnbounded = Num (- 300)"
    by (simp_all add: exampleUnbounded_def exampleInstance_def)
  show ?thesis
    using pan_step_from_width [OF ready_exampleUnbounded, of StepAbsent False]
      ready_exampleUnbounded
    by (auto simp: px f committed_def)
qed

theorem pan_step_from_width_counterexample:
  "bounds (options exampleUnbounded) = BoundsOff
   \<and> getPosition exampleUnbounded = (Num 0.5, Num (- 400), Num (- 300))
   \<and> ((Num (clientWidth exampleContainer) * Num 0) / Num 100) * this_zoom exampleUnbounded = Num 0
   \<and> positionAfter (panUp (StepNumber (Num 0)) False exampleUnbounded)
       = Inr (Num 0.5, Num (- 400), Num (- 380))
   \<and> getPosition exampleInstance = (Num 0.5, Num (- 400), Num (- 300))
   \<and> ((Num (clientWidth exampleContainer) * Num 10) / Num 100) * this_zoom exampleInstance = Num 80
   \<and> positionAfter (panUp (StepNumber (Num 10)) False exampleInstance)
       = Inr (Num 0.5, Num (- 400), Num (- 300))"
proof -
  have u: "bounds (options exampleUnbounded) = BoundsOff"
    "this_zoom exampleUnbounded = Num 0.5"
    "this_x exampleUnbounded = Num (- 400)" "this_y exampleUnbounded = Num (- 300)"
    "panStep (options exampleUnbounded) = Num 10"
    by (simp_all add: exampleUnbounded_def exampleInstance_def newObject_def exampleOptions_def
        defaultOptions_def)
  have i: "bounds (options exampleInstance) = BoundsContain"
    "this_zoom exampleInstance = Num 0.5"
    "this_x exampleInstance = Num (- 400)" "this_y exampleInstance = Num (- 300)"
    by (simp_all add: exampleInstance_def newObject_def exampleOptions_def defaultOptions_def)
  obtain su where su: "pan (StepNumber (Num 0)) False PanUp exampleUnbounded = Inr su"
      "this_zoom su = Num 0.5" "this_x su = Num (- 400)" "this_y su = Num (- 380)"
    using pan_ready [OF ready_exampleUnbounded, of "StepNumber (Num 0)" False PanUp]
    by (auto simp: u committed_def panStepPixels_def stepOr_def exampleContainer_def)
  obtain si where si: "pan (StepNumber (Num 10)) False PanUp exampleInstance = Inr si"
      "this_zoom si = Num 0.5" "this_x si = Num (- 400)" "this_y si = Num (- 300)"
    using pan_ready [OF ready_exampleInstance, of "StepNumber (Num 10)" False PanUp]
    by (auto simp: i committed_def panStepPixels_def stepOr_def exampleContainer_def
        exampleWrapper_def fitAxis_def)
  show ?thesis
    using su si
    by (simp add: positionAfter_def panUp_def getPosition_def u i exampleContainer_def)
qed

section \<open>The pinch distance\<close>

text \<open>
  Claim C9. For all pointer events \<open>e1\<close> and \<open>e2\<close>, \<open>getTouchEventsDistance e1 e2\<close> is the
  absolute vertical separation \<open>|e1.pageY - e2.pageY|\<close>; the x term of the computation,
  \<open>e1.pageX - e1.pageX\<close>, is zero.
\<close>

theorem getTouchEventsDistance_vertical:
  "getTouchEventsDistance e1 e2 = Num \<bar>pageY e1 - pageY e2\<bar>
   \<and> Num (pageX e1) - Num (pageX e1) = Num 0"
  by (simp add: getTouchEventsDistance_def)

section \<open>Reading the pan\<close>

lemma getPanX_ready:
  assumes "ready s w c"
  shows "getPanX pixelValues s =
           Inr (if pixelValues
                then panPixels (Num (clientWidth w)) (Num (clientWidth c)) (this_zoom s) (this_x s)
                else panPercent (Num (clientWidth w)) (Num (clientWidth c)) (this_zoom s) (this_x s),
                s)"
  using assms unfolding ready_def getPanX_def panPercent_def panPixels_def Let_def
  by (simp add: getWrapper_cached getContainer_cached del: jsnum_ops)

lemma getPanY_ready:
  assumes "ready s w c"
  shows "getPanY pixelValues s =
           Inr (if pixelValues
                then panPixels (Num (clientHeight w)) (Num (clientHeight c)) (this_zoom s) (this_y s)
                else panPercent (Num (clientHeight w)) (Num (clientHeight c)) (this_zoom s) (this_y s),
                s)"
  using assms unfolding ready_def getPanY_def panPercent_def panPixels_def Let_def
  by (simp add: getWrapper_cached getContainer_cached del: jsnum_ops)

lemma getPan_ready:
  assumes "ready s w c"
  shows "getPan False s =
           Inr ((panPercent (Num (clientWidth w)) (Num (clientWidth c)) (this_zoom s) (this_x s),
                 panPercent (Num (clientHeight w)) (Num (clientHeight c)) (this_zoom s) (this_y s)),
                s)"
  by (simp add: getPan_def getPanX_ready [OF assms] getPanY_ready [OF assms])

text \<open>
  The percentage of \<open>getPanX\<close> and the offset of \<open>panTo\<close> as expressions over the reals, for
  a content size and a zoom other than \<open>0\<close>. Each expression undoes the other in exact
  arithmetic. Doubles do so within a tolerance that grows with the sizes and the zoom, and
  not at all where a quotient overflows or a sum cancels (a zoom near the smallest doubles,
  or one that the \<open>1\<close> subtracted from it absorbs); that statement, about rounded results,
  is outside this model.
\<close>

lemma panPercent_Num:
  "cs \<noteq> 0 \<Longrightarrow> z \<noteq> 0 \<Longrightarrow>
   panPercent (Num vs) (Num cs) (Num z) (Num v) =
     Num ((vs * 0.5 - v + (z - 1) * (cs * 0.5)) / (cs * z) * 100)"
  by (simp add: panPercent_def panPixels_def)

lemma panToOffset_Num:
  "panToOffset (Num vs) (Num cs) (Num z) (Num p) =
     Num (- (cs * z * p / 100) + (z - 1) * (cs * 0.5) + vs * 0.5)"
  by (simp add: panToOffset_def)

lemma panToOffset_panPercent:
  assumes "cs \<noteq> 0" "z \<noteq> 0"
  shows "panToOffset (Num vs) (Num cs) (Num z) (panPercent (Num vs) (Num cs) (Num z) (Num v)) = Num v"
  using assms by (simp add: panPercent_Num panToOffset_Num field_simps)

lemma panPercent_panToOffset:
  assumes "cs \<noteq> 0" "z \<noteq> 0"
  shows "panPercent (Num vs) (Num cs) (Num z) (panToOffset (Num vs) (Num cs) (Num z) (Num p)) = Num p"
  using assms by (simp add: panPercent_Num panToOffset_Num field_simps)

lemma ready_zeroZoomInstance: "ready zeroZoomInstance exampleWrapper exampleContainer"
  by (simp add: ready_def zeroZoomInstance_def)

lemma construct_zeroZoomOptions:
  "construct zeroZoomOptions noDocument 0 0 = Inr zeroZoomInstance"
  by (simp add: construct_def init_def newObject_def zeroZoomOptions_def exampleOptions_def
      defaultOptions_def getWrapper_def getContainer_def attachEvents_def sanitizeZoom_def
      center_def panTo_def setPosition_def transition_def fireEvent_def getPosition_def
      zeroZoomInstance_def exampleWrapper_def exampleContainer_def Let_def)

text \<open>
  At zoom \<open>0\<close>, which the limits allow when \<open>minZoom\<close> is \<open>0\<close>, \<open>getPan\<close> divides by zero:
  the percentages are \<open>NaN\<close>, and \<open>panTo\<close> of them stores \<open>NaN\<close> offsets.
\<close>

lemma getPan_zero_zoom:
  "construct zeroZoomOptions noDocument 0 0 = Inr zeroZoomInstance
   \<and> minZoom (options zeroZoomInstance) \<le> this_zoom zeroZoomInstance
   \<and> this_zoom zeroZoomInstance \<le> maxZoom (options zeroZoomInstance)
   \<and> ready zeroZoomInstance exampleWrapper exampleContainer
   \<and> 0 < clientWidth exampleWrapper \<and> 0 < clientHeight exampleWrapper
   \<and> 0 < clientWidth exampleContainer \<and> 0 < clientHeight exampleContainer
   \<and> this_x zeroZoomInstance = Num (- 400) \<and> this_y zeroZoomInstance = Num (- 300)
   \<and> getPan False zeroZoomInstance = Inr ((NaN, NaN), zeroZoomInstance)
   \<and> panTo NaN NaN True True zeroZoomInstance
       = Inr (zeroZoomInstance\<lparr>this_x := NaN, this_y := NaN\<rparr>)"
proof -
  have z: "this_zoom zeroZoomInstance = Num 0" "this_x zeroZoomInstance = Num (- 400)"
    "this_y zeroZoomInstance = Num (- 300)"
    "minZoom (options zeroZoomInstance) = Num 0" "maxZoom (options zeroZoomInstance) = Num 10"
    "callbacks (options zeroZoomInstance) = []"
    by (simp_all add: zeroZoomInstance_def newObject_def zeroZoomOptions_def exampleOptions_def
        defaultOptions_def)
  have g: "getPan False zeroZoomInstance = Inr ((NaN, NaN), zeroZoomInstance)"
    by (simp add: getPan_ready [OF ready_zeroZoomInstance] z panPercent_def panPixels_def
        exampleWrapper_def exampleContainer_def)
  have p: "panTo NaN NaN True True zeroZoomInstance
       = Inr (zeroZoomInstance\<lparr>this_x := NaN, this_y := NaN\<rparr>)"
    using ready_zeroZoomInstance
    by (simp add: panTo_def ready_def getWrapper_cached getContainer_cached z fireEvent_def)
  show ?thesis
    using construct_zeroZoomOptions ready_zeroZoomInstance g p
    by (simp add: z exampleWrapper_def exampleContainer_def)
qed

section \<open>Zooming\<close>

lemma sanitizeZoom_number:
  "sanitizeZoom (ZoomNumber n) s =
     Inr (adjustForLimits n (minZoom (options s)) (maxZoom (options s)), s)"
  by (simp add: sanitizeZoom_def adjustForLimits_def Let_def del: jsnum_ops)

lemma sanitizeZoom_ready:
  assumes "ready s w c"
  shows "\<exists>s'. sanitizeZoom z s =
                 Inr (adjustForLimits (fitZoom z w c) (minZoom (options s)) (maxZoom (options s)),
                      s')
              \<and> sameSetup s s' \<and> this_zoom s' = this_zoom s"
proof (cases z)
  case (ZoomNumber n)
  then show ?thesis by (simp add: sanitizeZoom_number)
next
  case ZoomCover
  obtain s' where s': "center True True s = Inr s'" "sameSetup s s'" "this_zoom s' = this_zoom s"
    using panTo_ready [OF assms, of "Num 50" "Num 50" True True] unfolding center_def by blast
  have "options s' = options s" using s'(2) by (simp add: sameSetup_def)
  then show ?thesis
    using assms s' ZoomCover unfolding sanitizeZoom_def ready_def
    by (simp add: getWrapper_cached getContainer_cached adjustForLimits_def Let_def
        del: jsnum_ops)
next
  case ZoomContain
  obtain s' where s': "center True True s = Inr s'" "sameSetup s s'" "this_zoom s' = this_zoom s"
    using panTo_ready [OF assms, of "Num 50" "Num 50" True True] unfolding center_def by blast
  have "options s' = options s" using s'(2) by (simp add: sameSetup_def)
  then show ?thesis
    using assms s' ZoomContain unfolding sanitizeZoom_def ready_def
    by (simp add: getWrapper_cached getContainer_cached adjustForLimits_def Let_def
        del: jsnum_ops)
qed

lemma getEventOffsetToCenter_ready:
  assumes "ready s w c"
  shows "\<exists>offsetToCenter. getEventOffsetToCenter ev s = Inr (offsetToCenter, s)"
  using assms unfolding getEventOffsetToCenter_def ready_def Let_def
  by (simp add: getWrapper_cached getContainer_cached del: jsnum_ops)

lemma adjustPositionByZoom_ready:
  assumes "ready s w c"
  shows "\<exists>s'. adjustPositionByZoom z ox oy s = Inr s' \<and> sameSetup s s'
           \<and> this_zoom s' = this_zoom s"
  using assms unfolding adjustPositionByZoom_def ready_def Let_def
  by (simp add: getContainer_cached sameSetup_def del: jsnum_ops)

text \<open>The steps shared by \<open>zoomTo\<close>, the wheel and the pinch: the position is adjusted for
  the new zoom, the zoom is stored, the position is committed.\<close>

lemma adjust_and_commit:
  assumes "ready s w c"
  shows "\<exists>s'. andThen (adjustPositionByZoom n ox oy s) (\<lambda>s.
               andThen (setPosition instant (s\<lparr>this_zoom := n\<rparr>)) (\<lambda>s.
                 Inr (fireEvent OnZoom (getPosition s) s))) = Inr s'
           \<and> sameSetup s s' \<and> this_zoom s' = n"
proof -
  obtain s1 where s1: "adjustPositionByZoom n ox oy s = Inr s1" "sameSetup s s1"
    using adjustPositionByZoom_ready [OF assms] by blast
  let ?s2 = "s1\<lparr>this_zoom := n\<rparr>"
  have r2: "ready ?s2 w c"
    using ready_sameSetup [OF assms s1(2)] by (simp add: ready_def)
  obtain s3 where s3: "setPosition instant ?s2 = Inr s3" "sameSetup ?s2 s3"
      "this_zoom s3 = this_zoom ?s2"
    using setPosition_ready [OF r2, of instant] by blast
  have "sameSetup s s3" using s1(2) s3(2) by (simp add: sameSetup_def)
  then show ?thesis using s1(1) s3 by simp
qed

lemma zoomTo_ready:
  assumes "ready s w c"
  shows "\<exists>s'. zoomTo z instant s = Inr s' \<and> sameSetup s s'
           \<and> this_zoom s' =
               adjustForLimits (fitZoom z w c) (minZoom (options s)) (maxZoom (options s))"
proof -
  define n where "n = adjustForLimits (fitZoom z w c) (minZoom (options s)) (maxZoom (options s))"
  obtain s1 where s1: "sanitizeZoom z s = Inr (n, s1)" "sameSetup s s1"
    using sanitizeZoom_ready [OF assms, of z] unfolding n_def by blast
  have r1: "ready s1 w c" using ready_sameSetup [OF assms s1(2)] .
  obtain off where off: "getEventOffsetToCenter (None :: eventPoint option) s1 = Inr (off, s1)"
    using getEventOffsetToCenter_ready [OF r1] by blast
  obtain s' where s': "andThen (adjustPositionByZoom n (fst off) (snd off) s1) (\<lambda>s.
               andThen (setPosition instant (s\<lparr>this_zoom := n\<rparr>)) (\<lambda>s.
                 Inr (fireEvent OnZoom (getPosition s) s))) = Inr s'"
      "sameSetup s1 s'" "this_zoom s' = n"
    using adjust_and_commit [OF r1] by blast
  have "zoomTo z instant s = Inr s'"
    unfolding zoomTo_def by (simp add: s1(1) off s'(1))
  then show ?thesis
    using sameSetup_trans [OF s1(2) s'(2)] s'(3) unfolding n_def by blast
qed














section \<open>The pointer cache\<close>

lemma length_replaceFirst [simp]: "length (replaceFirst ev es) = length es"
  by (induction es) simp_all

lemma length_spliceFirst: "length (spliceFirst ev es) \<le> length es"
  by (induction es) simp_all

lemma pointerMoveEvent_ready:
  assumes "ready s w c"
    and "length (evCache s) = 2 \<Longrightarrow> touchEventsCenterCache s \<noteq> None"
  shows "\<exists>s'. pointerMoveEvent ev s = Inr s' \<and> ready s' w c \<and> options s' = options s
           \<and> evCache s' = replaceFirst ev (evCache s) \<and> blockPan s' = blockPan s
           \<and> touchEventsCenterCache s' = touchEventsCenterCache s
           \<and> this_zoom s' =
               (if length (evCache s) = 2
                then adjustForLimits
                       (zoomCache s * pinchDiffPercent s c (replaceFirst ev (evCache s)))
                       (minZoom (options s)) (maxZoom (options s))
                else this_zoom s)"
proof (cases "length (evCache s) = 2")
  case False
  then show ?thesis
    using assms(1) by (simp add: pointerMoveEvent_def Let_def ready_def)
next
  case True
  let ?s0 = "s\<lparr>evCache := replaceFirst ev (evCache s)\<rparr>"
  let ?n = "adjustForLimits (zoomCache s * pinchDiffPercent s c (evCache ?s0))
                       (minZoom (options s)) (maxZoom (options s))"
  let ?center = "getTouchEventsCenter (evCache ?s0 ! 0) (evCache ?s0 ! 1)"
  obtain cached where cached: "touchEventsCenterCache s = Some cached"
    using assms(2) True by blast
  have r0: "ready ?s0 w c" using assms(1) by (simp add: ready_def)
  have c0: "containerElement ?s0 = Some c" using r0 by (simp add: ready_def)
  obtain off where off: "getEventOffsetToCenter
       (Some \<lparr>target = target (evCache ?s0 ! 0), clientX = centerClientX ?center,
              clientY = centerClientY ?center\<rparr>) ?s0 = Inr (off, ?s0)"
    using getEventOffsetToCenter_ready [OF r0] by blast
  obtain s1 where s1: "adjustPositionByZoom ?n (fst off) (snd off) ?s0 = Inr s1"
      "sameSetup ?s0 s1"
    using adjustPositionByZoom_ready [OF r0] by blast
  let ?s2 = "s1\<lparr>this_x := xCache s1 + Num (centerClientX ?center - centerClientX cached),
                 this_y := yCache s1 + Num (centerClientY ?center - centerClientY cached),
                 this_zoom := ?n\<rparr>"
  have same2: "sameSetup ?s0 ?s2" using s1(2) by (simp add: sameSetup_def)
  have r2: "ready ?s2 w c" using ready_sameSetup [OF r0 same2] .
  obtain s3 where s3: "setPosition True ?s2 = Inr s3" "sameSetup ?s2 s3"
      "this_zoom s3 = this_zoom ?s2"
    using setPosition_ready [OF r2, of True] by blast
  have same3: "sameSetup ?s0 s3" using sameSetup_trans [OF same2 s3(2)] .
  have tc1: "touchEventsCenterCache s1 = Some cached"
    using s1(2) cached by (simp add: sameSetup_def)
  have san: "sanitizeZoom (ZoomNumber (zoomCache s * pinchDiffPercent s c (evCache ?s0))) ?s0
               = Inr (?n, ?s0)"
    by (simp add: sanitizeZoom_number)
  have "pointerMoveEvent ev s =
          Inr (fireEvent OnPan (getPosition s3) (fireEvent OnZoom (getPosition s3) s3))"
    unfolding pointerMoveEvent_def Let_def
    using True san off s1(1) s3(1) tc1
    by (simp add: getContainer_cached [OF c0] pinchDiffPercent_def getPosition_def
        del: jsnum_ops)
  moreover have "ready s3 w c" using ready_sameSetup [OF r0 same3] .
  moreover have "options s3 = options s" "evCache s3 = replaceFirst ev (evCache s)"
      "blockPan s3 = blockPan s" "touchEventsCenterCache s3 = touchEventsCenterCache s"
    using same3 by (simp_all add: sameSetup_def)
  moreover have "this_zoom s3 = ?n" using s3(3) by simp
  ultimately show ?thesis
    using True by (simp add: ready_def fireEvent_update)
qed


lemma construct_exampleOptions:
  "construct exampleOptions noDocument 0 0 = Inr exampleInstance"
  by (simp add: construct_def init_def newObject_def exampleOptions_def
      defaultOptions_def getWrapper_def getContainer_def attachEvents_def sanitizeZoom_def
      center_def panTo_def setPosition_def fitToBounds_def transition_def fireEvent_def
      getPosition_def exampleInstance_def exampleWrapper_def exampleContainer_def Let_def)

lemma pointerDownEvent_fields:
  "evCache (pointerDownEvent ev s) = evCache s @ [ev]"
  "zoomCache (pointerDownEvent ev s) = this_zoom s"
  "xCache (pointerDownEvent ev s) = this_x s"
  "yCache (pointerDownEvent ev s) = this_y s"
  "wrapperElement (pointerDownEvent ev s) = wrapperElement s"
  "containerElement (pointerDownEvent ev s) = containerElement s"
  "blockPan (pointerDownEvent ev s) = (if length (evCache s) = 1 then True else blockPan s)"
  "touchEventsCenterCache (pointerDownEvent ev s) =
     (if length (evCache s) = 1 then Some (getTouchEventsCenter (evCache s ! 0) ev)
      else touchEventsCenterCache s)"
  "pinchDiffCache (pointerDownEvent ev s) =
     (if length (evCache s) = 1 then getTouchEventsDistance (evCache s ! 0) ev
      else pinchDiffCache s)"
  by (simp_all add: pointerDownEvent_def Let_def nth_append del: jsnum_ops)

lemma pointerUpEvent_fields:
  "evCache (pointerUpEvent ev s) = spliceFirst ev (evCache s)"
  "wrapperElement (pointerUpEvent ev s) = wrapperElement s"
  "containerElement (pointerUpEvent ev s) = containerElement s"
  "touchEventsCenterCache (pointerUpEvent ev s) = touchEventsCenterCache s"
  "blockPan (pointerUpEvent ev s) =
     (if length (spliceFirst ev (evCache s)) < 2 then False else blockPan s)"
  by (simp_all add: pointerUpEvent_def Let_def)

lemma pinchTracked_pointerDownEvent:
  "pinchTracked s \<Longrightarrow> pinchTracked (pointerDownEvent ev s)"
  by (auto simp: pinchTracked_def pointerDownEvent_fields split: if_splits)

lemma pinchTracked_pointerUpEvent:
  "pinchTracked s \<Longrightarrow> pinchTracked (pointerUpEvent ev s)"
  using length_spliceFirst [of ev "evCache s"]
  by (auto simp: pinchTracked_def pointerUpEvent_fields split: if_splits)

lemma pointerInputStep_tracked:
  assumes "ready s w c" and "pinchTracked s"
  shows "\<exists>s'. pointerInputStep i s = Inr s' \<and> ready s' w c \<and> pinchTracked s'"
proof (cases i)
  case (PointerDown ev)
  then show ?thesis
    using assms pinchTracked_pointerDownEvent [OF assms(2), of ev]
    by (simp add: ready_def pointerDownEvent_fields)
next
  case (PointerMove ev)
  have "touchEventsCenterCache s \<noteq> None" if "length (evCache s) = 2"
    using that assms(2) by (simp add: pinchTracked_def)
  then obtain s' where s': "pointerMoveEvent ev s = Inr s'" "ready s' w c"
      "evCache s' = replaceFirst ev (evCache s)" "blockPan s' = blockPan s"
      "touchEventsCenterCache s' = touchEventsCenterCache s"
    using pointerMoveEvent_ready [OF assms(1), of ev] by blast
  have "pinchTracked s'" using assms(2) s'(3-5) by (simp add: pinchTracked_def)
  then show ?thesis using PointerMove s'(1,2) by simp
next
  case (PointerUp ev)
  then show ?thesis
    using assms pinchTracked_pointerUpEvent [OF assms(2), of ev]
    by (simp add: ready_def pointerUpEvent_fields)
qed

lemma pointerInputs_tracked:
  assumes "ready s w c" and "pinchTracked s"
  shows "\<exists>s'. pointerInputs inputs s = Inr s' \<and> ready s' w c \<and> pinchTracked s'"
  using assms
proof (induction inputs arbitrary: s)
  case Nil
  then show ?case by simp
next
  case (Cons i inputs)
  obtain s1 where s1: "pointerInputStep i s = Inr s1" "ready s1 w c" "pinchTracked s1"
    using pointerInputStep_tracked [OF Cons.prems] by blast
  show ?case using Cons.IH [OF s1(2,3)] s1(1) by simp
qed

text \<open>
  Claim C8, amended. The cache is not bounded: every pointer-down appends a record (and
  captures zoom, x and y). The pointer-down that brings the cache to exactly two entries
  captures the pinch distance and center of the two and sets \<open>blockPan\<close>; a removal never
  grows the cache and clears \<open>blockPan\<close> when fewer than two entries are left. Across every
  sequence of pointer events on a constructed instance no handler throws, and \<open>blockPan\<close>
  is set exactly while the cache holds two entries or more.
\<close>

theorem pointer_cache:
  assumes "ready s w c" and "pinchTracked s"
  shows "(\<exists>s'. pointerInputs inputs s = Inr s' \<and> ready s' w c \<and> pinchTracked s')
         \<and> evCache (pointerDownEvent ev s) = evCache s @ [ev]
         \<and> zoomCache (pointerDownEvent ev s) = this_zoom s
         \<and> xCache (pointerDownEvent ev s) = this_x s
         \<and> yCache (pointerDownEvent ev s) = this_y s
         \<and> (length (evCache (pointerDownEvent ev s)) = 2 \<longrightarrow>
               blockPan (pointerDownEvent ev s)
               \<and> pinchDiffCache (pointerDownEvent ev s)
                   = getTouchEventsDistance (evCache s ! 0) ev
               \<and> touchEventsCenterCache (pointerDownEvent ev s)
                   = Some (getTouchEventsCenter (evCache s ! 0) ev))
         \<and> length (evCache (pointerUpEvent ev s)) \<le> length (evCache s)
         \<and> (length (evCache (pointerUpEvent ev s)) < 2 \<longrightarrow> \<not> blockPan (pointerUpEvent ev s))"
  using pointerInputs_tracked [OF assms, of inputs] length_spliceFirst [of ev "evCache s"]
  by (simp add: pointerDownEvent_fields pointerUpEvent_fields del: jsnum_ops)

lemma pinchTracked_exampleInstance: "pinchTracked exampleInstance"
  by (simp add: pinchTracked_def exampleInstance_def newObject_def)

theorem pointer_cache_witness:
  "ready exampleInstance exampleWrapper exampleContainer \<and> pinchTracked exampleInstance
   \<and> (\<exists>s'. pointerInputs
              [PointerDown (examplePointer 1 100 100), PointerDown (examplePointer 2 200 100),
               PointerMove (examplePointer 2 220 100), PointerUp (examplePointer 1 100 100)]
              exampleInstance = Inr s'
          \<and> ready s' exampleWrapper exampleContainer \<and> pinchTracked s')
   \<and> evCache (pointerDownEvent (examplePointer 1 100 100) exampleInstance)
       = [examplePointer 1 100 100]"
proof -
  have "evCache exampleInstance = []" by (simp add: exampleInstance_def newObject_def)
  then show ?thesis
    using pointer_cache [OF ready_exampleInstance pinchTracked_exampleInstance,
        of "[PointerDown (examplePointer 1 100 100), PointerDown (examplePointer 2 200 100),
               PointerMove (examplePointer 2 220 100), PointerUp (examplePointer 1 100 100)]"
           "examplePointer 1 100 100"]
      ready_exampleInstance pinchTracked_exampleInstance
    by simp
qed

theorem pointer_cache_counterexample:
  "construct exampleOptions noDocument 0 0 = Inr exampleInstance
   \<and> pointerInputs
        [PointerDown (examplePointer 1 100 100), PointerDown (examplePointer 2 200 100),
         PointerDown (examplePointer 3 300 100)] exampleInstance
       = Inr (pointerDownEvent (examplePointer 3 300 100)
               (pointerDownEvent (examplePointer 2 200 100)
                 (pointerDownEvent (examplePointer 1 100 100) exampleInstance)))
   \<and> length (evCache (pointerDownEvent (examplePointer 3 300 100)
               (pointerDownEvent (examplePointer 2 200 100)
                 (pointerDownEvent (examplePointer 1 100 100) exampleInstance)))) = 3"
  using construct_exampleOptions
  by (simp add: pointerDownEvent_fields exampleInstance_def newObject_def)

section \<open>Initialisation\<close>

lemma attachEvents_ready: "ready s w c \<Longrightarrow> attachEvents s = Inr s"
  by (simp add: attachEvents_def ready_def getWrapper_cached)

lemma init_ready:
  assumes "ready s w c"
  shows "\<exists>s'. init s = Inr s' \<and> ready s' w c
           \<and> options s' = (options s)\<lparr>minZoom := adjustedMinZoom (options s) w c\<rparr>
           \<and> this_zoom s' =
               adjustForLimits (fitZoom (initialZoom (options s)) w c)
                 (adjustedMinZoom (options s) w c) (maxZoom (options s))"
proof -
  let ?s3 = "s\<lparr>evCache := [], pinchDiffCache := Num 0\<rparr>"
  let ?M = "adjustedMinZoom (options s) w c"
  let ?s4 = "?s3\<lparr>options := (options s)\<lparr>minZoom := ?M\<rparr>\<rparr>"
  let ?n = "adjustForLimits (fitZoom (initialZoom (options s)) w c) ?M (maxZoom (options s))"
  have wc: "wrapperElement s = Some w" "containerElement s = Some c"
    using assms by (simp_all add: ready_def)
  have r3: "ready ?s3 w c" using assms by (simp add: ready_def)
  have r4: "ready ?s4 w c" using assms by (simp add: ready_def)
  obtain s5 where s5: "sanitizeZoom (initialZoom (options ?s4)) ?s4 = Inr (?n, s5)"
      "sameSetup ?s4 s5"
    using sanitizeZoom_ready [OF r4, of "initialZoom (options ?s4)"] by auto
  let ?s6 = "s5\<lparr>this_zoom := ?n, this_x := initialPanX (options s5),
                 this_y := initialPanY (options s5)\<rparr>"
  have same6: "sameSetup ?s4 ?s6" using s5(2) by (simp add: sameSetup_def)
  have r6: "ready ?s6 w c" using ready_sameSetup [OF r4 same6] .
  obtain s7 where s7:
      "(if optCenter (options ?s6) then center True False ?s6
        else panTo (initialPanX (options ?s6)) (initialPanY (options ?s6)) True False ?s6)
         = Inr s7" "sameSetup ?s6 s7" "this_zoom s7 = this_zoom ?s6"
    using panTo_ready [OF r6, of "Num 50" "Num 50" True False]
      panTo_ready [OF r6, of "initialPanX (options ?s6)" "initialPanY (options ?s6)" True False]
    unfolding center_def by (cases "optCenter (options ?s6)") auto
  have M: "?M =
      (case bounds (options s) of
         BoundsOff \<Rightarrow> minZoom (options s)
       | BoundsCover \<Rightarrow>
           jmax (jmax (minZoom (options s)) (Num (clientWidth w) / Num (clientWidth c)))
             (Num (clientHeight w) / Num (clientHeight c))
       | BoundsContain \<Rightarrow>
           jmax (minZoom (options s))
             (jmin (Num (clientWidth w) / Num (clientWidth c))
               (Num (clientHeight w) / Num (clientHeight c))))"
    by (simp add: adjustedMinZoom_def Let_def del: jsnum_ops)
  have same7: "sameSetup ?s4 s7" using sameSetup_trans [OF same6 s7(2)] .
  have "init s = Inr (fireEvent OnInit (getPosition s7) s7)"
    unfolding init_def Let_def
    using s5(1) [unfolded M] s7(1) [unfolded M]
    by (cases "bounds (options s)")
      (simp_all add: getWrapper_cached [OF wc(1)] getContainer_cached [OF wc(2)]
        attachEvents_ready [OF r3] Let_def del: jsnum_ops split: if_splits)
  moreover have "ready s7 w c" using ready_sameSetup [OF r4 same7] .
  moreover have "options s7 = (options s)\<lparr>minZoom := ?M\<rparr>"
    using same7 by (simp add: sameSetup_def)
  moreover have "this_zoom s7 = ?n" using s7(3) by simp
  ultimately show ?thesis by (simp add: ready_def fireEvent_update)
qed

lemma construct_elements:
  assumes "optWrapperElement opts = AnElement w" and "optPanZoomElement opts = AnElement c"
  shows "construct opts query sx sy =
           init ((newObject opts query sx sy)
                   \<lparr>wrapperElement := Some w, containerElement := Some c\<rparr>)"
  using assms
  by (simp add: construct_def init_def newObject_def getWrapper_def getContainer_def)


section \<open>The zoom limits\<close>














section \<open>Missing elements\<close>

text \<open>
  Claim C5. The constructor does not leave an inert instance when an element is missing:
  it reports on the console and then throws a \<open>TypeError\<close>. With no options at all both
  elements are reported and \<open>wrapper.style\<close> throws; with a wrapper selector that matches
  nothing the same; with only the content missing, the wrapper is styled and the size of
  the content is the first property read of \<open>null\<close>.
\<close>

theorem construct_missing_element_throws:
  "construct defaultOptions query sx sy =
     Inl (TypeError NullProperty,
          (newObject defaultOptions query sx sy)
            \<lparr>console := [''The option wrapperElement is required.'',
                         ''The option panZoomElement is required.'']\<rparr>)
   \<and> construct (exampleOptions\<lparr>optWrapperElement := Selector ''#missing''\<rparr>) noDocument sx sy =
     Inl (TypeError NullProperty,
          (newObject (exampleOptions\<lparr>optWrapperElement := NoElement\<rparr>) noDocument sx sy)
            \<lparr>containerElement := Some exampleContainer,
             console := [''The option wrapperElement needs to be a valid selector string or an instance of Element.'']\<rparr>)
   \<and> construct (exampleOptions\<lparr>optPanZoomElement := NoElement\<rparr>) query sx sy =
     Inl (TypeError NullProperty,
          (newObject (exampleOptions\<lparr>optPanZoomElement := NoElement\<rparr>) query sx sy)
            \<lparr>wrapperElement := Some exampleWrapper, pinchDiffCache := Num 0,
             console := [''The option panZoomElement is required.'']\<rparr>)"
  by (simp add: construct_def init_def newObject_def defaultOptions_def exampleOptions_def
      getWrapper_def getContainer_def consoleError_def attachEvents_def noDocument_def Let_def)

section \<open>Elements of size zero\<close>

lemma not_finite_percent:
  assumes "cs = 0"
  shows "\<not> isFinite (panPercent (Num vs) (Num cs) (Num z) (Num v))"
  using assms by (simp add: panPercent_def panPixels_def infTimes_def)

text \<open>
  Claim C3, amended. No operation checks for a dimension of zero. On an instance with a
  finite state, \<open>getPanX\<close> and \<open>getPanY\<close> leave the state unchanged but return a
  percentage that is not finite when the content's width, or height, is zero; and
  \<open>zoomTo\<close> with \<open>'contain'\<close> or \<open>'cover'\<close> on a content of width and height zero stores what
  the division gives: \<open>maxZoom\<close> (the clamped \<open>Infinity\<close>) in a viewport of positive size,
  and \<open>NaN\<close> in a viewport of size zero.
\<close>

theorem zero_size_not_guarded:
  assumes "ready s w c"
    and "this_zoom s = Num z" and "this_x s = Num x0" and "this_y s = Num y0"
    and "maxZoom (options s) = Num hi" and "zv = ZoomContain \<or> zv = ZoomCover"
  shows "(\<exists>v. getPanX False s = Inr (v, s) \<and> (clientWidth c = 0 \<longrightarrow> \<not> isFinite v))
         \<and> (\<exists>v. getPanY False s = Inr (v, s) \<and> (clientHeight c = 0 \<longrightarrow> \<not> isFinite v))
         \<and> (\<exists>s'. zoomTo zv instant s = Inr s'
               \<and> (clientWidth c = 0 \<and> clientHeight c = 0
                     \<and> 0 < clientWidth w \<and> 0 < clientHeight w \<longrightarrow> this_zoom s' = Num hi)
               \<and> (clientWidth c = 0 \<and> clientHeight c = 0
                     \<and> clientWidth w = 0 \<and> clientHeight w = 0 \<longrightarrow> this_zoom s' = NaN))"
proof -
  have px: "\<exists>v. getPanX False s = Inr (v, s) \<and> (clientWidth c = 0 \<longrightarrow> \<not> isFinite v)"
    using not_finite_percent [of "clientWidth c" "clientWidth w" z x0]
    by (simp add: getPanX_ready [OF assms(1)] assms(2,3) del: jsnum_ops)
  have py: "\<exists>v. getPanY False s = Inr (v, s) \<and> (clientHeight c = 0 \<longrightarrow> \<not> isFinite v)"
    using not_finite_percent [of "clientHeight c" "clientHeight w" z y0]
    by (simp add: getPanY_ready [OF assms(1)] assms(2,4) del: jsnum_ops)
  obtain s' where s': "zoomTo zv instant s = Inr s'"
      "this_zoom s' = adjustForLimits (fitZoom zv w c) (minZoom (options s)) (Num hi)"
    using zoomTo_ready [OF assms(1), of zv instant] by (auto simp: assms(5))
  have pos: "this_zoom s' = Num hi"
    if "clientWidth c = 0" "clientHeight c = 0" "0 < clientWidth w" "0 < clientHeight w"
    using that assms(6) unfolding s'(2)
    by (cases "minZoom (options s)") (auto simp: adjustForLimits_def Let_def)
  have zero: "this_zoom s' = NaN"
    if "clientWidth c = 0" "clientHeight c = 0" "clientWidth w = 0" "clientHeight w = 0"
    using that assms(6) unfolding s'(2)
    by (auto simp: adjustForLimits_def Let_def)
  show ?thesis using px py s'(1) pos zero by blast
qed

lemma collapsedInstance_fields:
  "ready collapsedInstance \<lparr>clientWidth = 0, clientHeight = 0\<rparr> \<lparr>clientWidth = 0, clientHeight = 0\<rparr>"
  "this_zoom collapsedInstance = Num 0.5" "this_x collapsedInstance = Num (- 400)"
  "this_y collapsedInstance = Num (- 300)" "maxZoom (options collapsedInstance) = Num 10"
  "minZoom (options collapsedInstance) = Num 0.5"
  by (simp_all add: collapsedInstance_def ready_def exampleInstance_def newObject_def
      exampleOptions_def defaultOptions_def)

theorem zero_size_not_guarded_witness:
  "ready collapsedInstance \<lparr>clientWidth = 0, clientHeight = 0\<rparr> \<lparr>clientWidth = 0, clientHeight = 0\<rparr>
   \<and> this_zoom collapsedInstance = Num 0.5 \<and> this_x collapsedInstance = Num (- 400)
   \<and> this_y collapsedInstance = Num (- 300) \<and> maxZoom (options collapsedInstance) = Num 10
   \<and> (\<exists>v. getPanX False collapsedInstance = Inr (v, collapsedInstance) \<and> \<not> isFinite v)
   \<and> (\<exists>v. getPanY False collapsedInstance = Inr (v, collapsedInstance) \<and> \<not> isFinite v)
   \<and> (\<exists>s'. zoomTo ZoomContain True collapsedInstance = Inr s' \<and> this_zoom s' = NaN)"
  using zero_size_not_guarded [where s = collapsedInstance and zv = ZoomContain
      and instant = True, OF collapsedInstance_fields(1-5)]
    collapsedInstance_fields
  by simp

theorem zero_size_not_guarded_counterexample:
  "getPosition collapsedInstance = (Num 0.5, Num (- 400), Num (- 300))
   \<and> zoomAfter (zoomTo ZoomContain True collapsedInstance) = Inr NaN
   \<and> getPanX False collapsedInstance = Inr (PInf, collapsedInstance)
   \<and> zoomAfter (construct zeroSizeOptions noDocument 0 0) = Inr NaN"
proof -
  let ?zero = "\<lparr>clientWidth = 0, clientHeight = 0\<rparr> :: element"
  obtain s' where s': "zoomTo ZoomContain True collapsedInstance = Inr s'"
    "this_zoom s' = adjustForLimits (fitZoom ZoomContain ?zero ?zero) (Num 0.5) (Num 10)"
    using zoomTo_ready [OF collapsedInstance_fields(1), of ZoomContain True]
    by (auto simp: collapsedInstance_fields)
  have z1: "this_zoom s' = NaN" unfolding s'(2) by (simp add: adjustForLimits_def)
  let ?s0 = "(newObject zeroSizeOptions noDocument 0 0)
               \<lparr>wrapperElement := Some ?zero, containerElement := Some ?zero\<rparr>"
  have r0: "ready ?s0 ?zero ?zero" by (simp add: ready_def)
  have c: "construct zeroSizeOptions noDocument 0 0 = init ?s0"
    by (rule construct_elements) (simp_all add: zeroSizeOptions_def)
  obtain t where t: "init ?s0 = Inr t"
    "this_zoom t = adjustForLimits (fitZoom (initialZoom (options ?s0)) ?zero ?zero)
       (adjustedMinZoom (options ?s0) ?zero ?zero) (maxZoom (options ?s0))"
    using init_ready [OF r0] by blast
  have z2: "this_zoom t = NaN"
    unfolding t(2)
    by (simp add: newObject_def zeroSizeOptions_def defaultOptions_def adjustForLimits_def
        adjustedMinZoom_def)
  show ?thesis
    using s'(1) z1 c t(1) z2
    by (simp add: zoomAfter_def getPosition_def collapsedInstance_fields
        getPanX_ready [OF collapsedInstance_fields(1)] panPercent_def panPixels_def
        infTimes_def)
qed

section \<open>Offsets that are not numbers\<close>










section \<open>\<open>zoomIn\<close> and \<open>zoomOut\<close>\<close>

lemma zoomIn_ready:
  assumes "ready s w c"
  shows "\<exists>s'. zoomIn step instant s = Inr s' \<and> sameSetup s s'
           \<and> this_zoom s' =
               adjustForLimits
                 (this_zoom s * ((Num 100 + stepOr step (zoomStep (options s))) / Num 100))
                 (minZoom (options s)) (maxZoom (options s))"
  using zoomTo_ready [OF assms,
      of "ZoomNumber (this_zoom s * ((Num 100 + stepOr step (zoomStep (options s))) / Num 100))"]
  by (simp add: zoomIn_def zoomInOut_def Let_def del: jsnum_ops)

text \<open>
  Claim C4. \<open>zoomIn\<close> completes (above), but \<open>zoomOut\<close> does not: on every instance, with
  every step and flag, the assignment to the constant \<open>zoomStep\<close> throws a \<open>TypeError\<close>,
  and the instance is left as it was.
\<close>

theorem zoomOut_throws:
  "zoomOut step instant s = Inl (TypeError ConstAssignment, s)"
  by (simp add: zoomOut_def zoomInOut_def Let_def)

end
